theory Spec2Isabelle
  imports Main "HOL-Library.Char_ord" "HOL-Library.List_Lexorder"
begin

chapter \<open>A REST facade over OKX and a Discord message harvester\<close>

text \<open>
  The development embeds the order path of the OKX trading service with its HTTP
  router, the singleton base service, the Discord scheduler and the Discord message
  service (fetch, grouping, saving). Python exceptions are values of \<open>py_exn\<close>;
  a function that can raise returns \<open>py_exn + 'a\<close>, with \<open>Inl\<close> the exception.
\<close>

section \<open>Python values and exceptions\<close>

datatype py_exn =
    KeyError string
  | IndexError
  | ValueError string
  | AttributeError string
  | VendorError string
  | RuntimeError string
  | HTTPException nat string

text \<open>
  \<open>str(e)\<close>. For the built-in exceptions it is the message (a \<open>KeyError\<close> prints its key
  in quotes). What \<open>str\<close> gives for the web framework's \<open>HTTPException\<close> is decided by
  the framework, which is not part of the repository: it is the parameter \<open>http_str\<close>.
\<close>

fun exn_str :: "(nat \<Rightarrow> string \<Rightarrow> string) \<Rightarrow> py_exn \<Rightarrow> string" where
  "exn_str http_str (KeyError k) = [CHR 0x27] @ k @ [CHR 0x27]"
| "exn_str http_str IndexError = ''list index out of range''"
| "exn_str http_str (ValueError m) = m"
| "exn_str http_str (AttributeError m) = m"
| "exn_str http_str (VendorError m) = m"
| "exn_str http_str (RuntimeError m) = m"
| "exn_str http_str (HTTPException status detail) = http_str status detail"

text \<open>Truthiness of an \<open>Optional[str]\<close>: \<open>None\<close> and the empty string are false.\<close>

definition truthy :: "string option \<Rightarrow> bool" where
  "truthy v = (case v of None \<Rightarrow> False | Some s \<Rightarrow> s \<noteq> [])"

text \<open>\<open>a or b\<close> on two \<open>Optional[str]\<close> values.\<close>

definition py_or :: "string option \<Rightarrow> string option \<Rightarrow> string option" where
  "py_or a b = (if truthy a then a else b)"

text \<open>A JSON object whose values are strings, read with \<open>d[k]\<close> and \<open>d.get(k)\<close>.\<close>

type_synonym py_dict = "string \<rightharpoonup> string"

definition getitem :: "py_dict \<Rightarrow> string \<Rightarrow> py_exn + string" where
  "getitem d k = (case d k of None \<Rightarrow> Inl (KeyError k) | Some v \<Rightarrow> Inr v)"

definition get_default :: "py_dict \<Rightarrow> string \<Rightarrow> string \<Rightarrow> string" where
  "get_default d k dflt = (case d k of None \<Rightarrow> dflt | Some v \<Rightarrow> v)"

text \<open>Keyword arguments handed to the vendor SDK, in the order the code adds them.\<close>

datatype py_value = Str string | Bool bool

type_synonym kwargs = "(string \<times> py_value) list"

definition put_str :: "string \<Rightarrow> string option \<Rightarrow> kwargs \<Rightarrow> kwargs" where
  "put_str k v ps = (case v of None \<Rightarrow> ps | Some s \<Rightarrow> if s \<noteq> [] then ps @ [(k, Str s)] else ps)"

definition put_bool :: "string \<Rightarrow> bool option \<Rightarrow> kwargs \<Rightarrow> kwargs" where
  "put_bool k v ps = (case v of None \<Rightarrow> ps | Some b \<Rightarrow> ps @ [(k, Bool b)])"

section \<open>The OKX vendor interface\<close>

text \<open>
  What an SDK call returns: nothing usable (\<open>None\<close> or an empty object, both false in
  Python), or a non-empty JSON object of which the code reads the keys \<open>msg\<close> and
  \<open>data\<close>. \<open>vr_data = None\<close> is an object without the key \<open>data\<close>.
\<close>

datatype vendor_result =
    NoResponse
  | Response (vr_msg: "string option") (vr_data: "py_dict list option")

text \<open>
  The venue as one attempt sees it: the answer of each SDK method, which may raise.
\<close>

record okx_world =
  get_balance :: "py_exn + string"
  set_order :: "kwargs \<Rightarrow> py_exn + vendor_result"
  set_cancel_order :: "kwargs \<Rightarrow> py_exn + vendor_result"
  set_amend_order :: "kwargs \<Rightarrow> py_exn + vendor_result"
  get_orders_history :: "kwargs \<Rightarrow> py_exn + vendor_result"
  get_order :: "kwargs \<Rightarrow> py_exn + vendor_result"
  set_close_position :: "kwargs \<Rightarrow> py_exn + vendor_result"

section \<open>OKXBaseService: the shared connection object\<close>

text \<open>An SDK client as \<open>connect\<close> builds it: the credentials and the environment flag.\<close>

record api_client =
  client_key :: string
  client_secret :: string
  client_passphrase :: string
  client_flag :: string

text \<open>
  The attributes of the one instance. \<open>inst_initialized\<close> is the instance attribute
  \<open>_initialized\<close>, \<open>None\<close> until \<open>connect\<close> or \<open>shutdown\<close> assigns it; reading
  \<open>self._initialized\<close> then falls back to the class attribute.
\<close>

record okx_base =
  inst_initialized :: "bool option"
  api_key :: "string option"
  secret_key :: "string option"
  passphrase :: "string option"
  is_sandbox :: bool
  account_api :: "api_client option"
  trade_api :: "api_client option"
  algo_api :: "api_client option"
  public_api :: "api_client option"
  market_api :: "api_client option"

text \<open>
  The interpreter state the class lives in: the class attributes \<open>_instance\<close> and
  \<open>_initialized\<close>, and the heap of instances by address.
\<close>

record py_state =
  cls_instance :: "nat option"
  cls_initialized :: bool
  heap :: "nat \<rightharpoonup> okx_base"
  next_addr :: nat

definition initial_state :: py_state where
  "initial_state = \<lparr>cls_instance = None, cls_initialized = False, heap = Map.empty,
     next_addr = 0\<rparr>"

text \<open>A fresh object has no attribute of its own.\<close>

definition blank_object :: okx_base where
  "blank_object = \<lparr>inst_initialized = None, api_key = None, secret_key = None,
     passphrase = None, is_sandbox = False, account_api = None, trade_api = None,
     algo_api = None, public_api = None, market_api = None\<rparr>"

text \<open>\<open>self._initialized\<close>: the instance attribute when set, else the class attribute.\<close>

definition initialized :: "py_state \<Rightarrow> okx_base \<Rightarrow> bool" where
  "initialized s obj = (case inst_initialized obj of None \<Rightarrow> cls_initialized s | Some b \<Rightarrow> b)"

text \<open>
  \<open>__new__\<close>: allocate only when the class holds no instance yet. The allocator hands
  out the addresses \<open>next_addr\<close>, \<open>next_addr + 1\<close>, ... in turn.
\<close>

definition okx_new :: "py_state \<Rightarrow> nat \<times> py_state" where
  "okx_new s =
     (case cls_instance s of
        None \<Rightarrow> (next_addr s, s\<lparr>cls_instance := Some (next_addr s),
                  heap := (heap s)(next_addr s \<mapsto> blank_object),
                  next_addr := Suc (next_addr s)\<rparr>)
      | Some a \<Rightarrow> (a, s))"

text \<open>\<open>__init__\<close>: skipped when already initialized, else the attributes are reset.\<close>

definition okx_init :: "nat \<Rightarrow> py_state \<Rightarrow> py_state" where
  "okx_init a s =
     (case heap s a of
        None \<Rightarrow> s
      | Some obj \<Rightarrow>
          if initialized s obj then s
          else s\<lparr>heap := (heap s)(a \<mapsto> obj\<lparr>api_key := None, secret_key := None,
                 passphrase := None, is_sandbox := False, account_api := None,
                 trade_api := None, algo_api := None, public_api := None,
                 market_api := None\<rparr>)\<rparr>)"

text \<open>\<open>OKXBaseService()\<close>: \<open>__new__\<close>, then \<open>__init__\<close> on what it returned.\<close>

definition OKXBaseService :: "py_state \<Rightarrow> nat \<times> py_state" where
  "OKXBaseService s = (case okx_new s of (a, s') \<Rightarrow> (a, okx_init a s'))"

text \<open>\<open>connect\<close>: stores the credentials, builds the five clients and tests the connection.\<close>

definition connect :: "okx_world \<Rightarrow> string \<Rightarrow> string \<Rightarrow> string \<Rightarrow> bool \<Rightarrow> nat \<Rightarrow> py_state
    \<Rightarrow> bool \<times> py_state" where
  "connect w key secret pass sandbox a s =
     (case heap s a of
        None \<Rightarrow> (False, s)
      | Some obj \<Rightarrow>
          (let client = \<lparr>client_key = key, client_secret = secret, client_passphrase = pass,
                 client_flag = (if \<not> sandbox then ''0'' else ''1'')\<rparr>;
               obj1 = obj\<lparr>api_key := Some key, secret_key := Some secret,
                 passphrase := Some pass, is_sandbox := sandbox, account_api := Some client,
                 trade_api := Some client, algo_api := Some client, public_api := Some client,
                 market_api := Some client\<rparr>
           in case get_balance w of
                Inl e \<Rightarrow> (False, s\<lparr>heap := (heap s)(a \<mapsto> obj1)\<rparr>)
              | Inr code \<Rightarrow>
                  if code \<noteq> ''0'' then (False, s\<lparr>heap := (heap s)(a \<mapsto> obj1)\<rparr>)
                  else (True, s\<lparr>heap := (heap s)(a \<mapsto> obj1\<lparr>inst_initialized := Some True\<rparr>)\<rparr>)))"

text \<open>\<open>ensure_connected\<close>: never raises; any exception of the test call is \<open>False\<close>.\<close>

definition ensure_connected :: "okx_world \<Rightarrow> py_state \<Rightarrow> nat \<Rightarrow> bool" where
  "ensure_connected w s a =
     (case heap s a of
        None \<Rightarrow> False
      | Some obj \<Rightarrow>
          if \<not> initialized s obj \<or> account_api obj = None then False
          else (case get_balance w of Inl e \<Rightarrow> False | Inr code \<Rightarrow> code = ''0''))"

definition shutdown :: "nat \<Rightarrow> py_state \<Rightarrow> py_state" where
  "shutdown a s =
     (case heap s a of
        None \<Rightarrow> s
      | Some obj \<Rightarrow>
          if initialized s obj
          then s\<lparr>heap := (heap s)(a \<mapsto> obj\<lparr>account_api := None, trade_api := None,
                 algo_api := None, public_api := None, market_api := None,
                 inst_initialized := Some False\<rparr>)\<rparr>
          else s)"

text \<open>
  What the program does to the class between two constructions: it constructs again,
  connects (with any credentials and any venue behaviour) or shuts down.
\<close>

datatype base_op =
    Construct
  | Connect okx_world string string string bool
  | Shutdown

definition base_step :: "py_state \<Rightarrow> base_op \<Rightarrow> py_state" where
  "base_step s op =
     (case op of
        Construct \<Rightarrow> snd (OKXBaseService s)
      | Connect w key secret pass sandbox \<Rightarrow>
          (case cls_instance s of None \<Rightarrow> s | Some a \<Rightarrow> snd (connect w key secret pass sandbox a s))
      | Shutdown \<Rightarrow> (case cls_instance s of None \<Rightarrow> s | Some a \<Rightarrow> shutdown a s))"

definition base_run :: "py_state \<Rightarrow> base_op list \<Rightarrow> py_state" where
  "base_run s ops = foldl base_step s ops"

text \<open>
  The wiring of \<open>main.py\<close>: one \<open>OKXBaseService()\<close>, handed to the three wrappers, each
  of which keeps it as \<open>self.base_service\<close>.
\<close>

record okx_services =
  trading_base_service :: nat
  market_base_service :: nat
  account_base_service :: nat

definition wire_okx_services :: "py_state \<Rightarrow> okx_services \<times> py_state" where
  "wire_okx_services s =
     (case OKXBaseService s of
        (okx_base_service, s') \<Rightarrow>
          (\<lparr>trading_base_service = okx_base_service,
            market_base_service = okx_base_service,
            account_base_service = okx_base_service\<rparr>, s'))"

section \<open>The retry decorator\<close>

text \<open>
  The loop of the library \<open>tenacity\<close> behind \<open>@retry(stop=stop_after_attempt(n), wait=...,
  retry_error_callback=...)\<close>: attempt \<open>k\<close> (counted from 1) calls the function; a value
  is returned at once; after an exception the loop stops when \<open>k \<ge> n\<close> and returns what
  the callback gives, else it sleeps \<open>wait k\<close> and tries again. \<open>f k\<close> is the outcome of
  the \<open>k\<close>-th call. The result carries the number of calls made and the sleeps taken.
  The wait policy is built from constants of a module that is not in the source tree, and
  the callback \<open>handle_retry_error\<close> lives in that tree too: both are parameters.
\<close>

function retry_loop :: "nat \<Rightarrow> (nat \<Rightarrow> 'w) \<Rightarrow> (py_exn \<Rightarrow> py_exn + 'a) \<Rightarrow> (nat \<Rightarrow> py_exn + 'a)
    \<Rightarrow> nat \<Rightarrow> 'w list \<Rightarrow> (py_exn + 'a) \<times> nat \<times> 'w list" where
  "retry_loop n wait handle f k ws =
     (case f k of
        Inr v \<Rightarrow> (Inr v, k, ws)
      | Inl e \<Rightarrow>
          if k \<ge> n then (handle e, k, ws)
          else retry_loop n wait handle f (Suc k) (ws @ [wait k]))"
  by pat_completeness auto
termination
  by (relation "measure (\<lambda>(n, wait, handle, f, k, ws). n - k)") auto

definition retry :: "nat \<Rightarrow> (nat \<Rightarrow> 'w) \<Rightarrow> (py_exn \<Rightarrow> py_exn + 'a) \<Rightarrow> (nat \<Rightarrow> py_exn + 'a)
    \<Rightarrow> (py_exn + 'a) \<times> nat \<times> 'w list" where
  "retry n wait handle f = retry_loop n wait handle f 1 []"

text \<open>
  A method of a service: its body, and the attempt bound of the retry decorator it
  carries, if it carries one. \<open>worlds k\<close> is the venue as the \<open>k\<close>-th attempt finds it;
  \<open>s\<close> and \<open>a\<close> are the interpreter state and the address of \<open>self.base_service\<close>.
\<close>

record ('req, 'resp) service_method =
  retry_stop :: "nat option"
  body :: "okx_world \<Rightarrow> py_state \<Rightarrow> nat \<Rightarrow> 'req \<Rightarrow> py_exn + 'resp"

definition call_method :: "(nat \<Rightarrow> 'w) \<Rightarrow> (py_exn \<Rightarrow> py_exn + 'resp) \<Rightarrow> ('req, 'resp) service_method
    \<Rightarrow> (nat \<Rightarrow> okx_world) \<Rightarrow> py_state \<Rightarrow> nat \<Rightarrow> 'req \<Rightarrow> (py_exn + 'resp) \<times> nat \<times> 'w list" where
  "call_method wait handle m worlds s a req =
     (case retry_stop m of
        None \<Rightarrow> (body m (worlds 1) s a req, 1, [])
      | Some n \<Rightarrow> retry n wait handle (\<lambda>k. body m (worlds k) s a req))"

section \<open>Trade requests and responses\<close>

datatype trade_mode = CASH | CROSS | ISOLATED
datatype order_side = BUY | SELL
datatype position_side = LONG | SHORT | NET

fun trade_mode_value :: "trade_mode \<Rightarrow> string" where
  "trade_mode_value CASH = ''cash''"
| "trade_mode_value CROSS = ''cross''"
| "trade_mode_value ISOLATED = ''isolated''"

fun order_side_value :: "order_side \<Rightarrow> string" where
  "order_side_value BUY = ''buy''"
| "order_side_value SELL = ''sell''"

fun position_side_value :: "position_side \<Rightarrow> string" where
  "position_side_value LONG = ''long''"
| "position_side_value SHORT = ''short''"
| "position_side_value NET = ''net''"

record okx_trade_request =
  tr_inst_id :: string
  tr_td_mode :: trade_mode
  tr_side :: order_side
  tr_ord_type :: string
  tr_sz :: string
  tr_px :: "string option"
  tr_ccy :: "string option"
  tr_cl_ord_id :: "string option"
  tr_tag :: "string option"
  tr_pos_side :: "position_side option"
  tr_reduce_only :: "bool option"
  tr_tp_trigger_px :: "string option"
  tr_tp_ord_px :: "string option"
  tr_sl_trigger_px :: "string option"
  tr_sl_ord_px :: "string option"
  tr_tp_trigger_px_type :: "string option"
  tr_sl_trigger_px_type :: "string option"
  tr_quick_margin_type :: "string option"
  tr_stp_id :: "string option"
  tr_stp_mode :: "string option"
  tr_banner_flag :: "string option"

record okx_trade_response =
  ord_id :: string
  cl_ord_id :: "string option"
  tag :: "string option"
  s_code :: string
  s_msg :: string

text \<open>The property \<open>OKXTradeResponse.success\<close>.\<close>

definition success :: "okx_trade_response \<Rightarrow> bool" where
  "success r = (s_code r = ''0'')"

text \<open>The response every failure branch builds: \<open>ord_id=""\<close>, \<open>s_code="1"\<close> and a message.\<close>

definition failure_response :: "string \<Rightarrow> okx_trade_response" where
  "failure_response m = \<lparr>ord_id = [], cl_ord_id = None, tag = None, s_code = ''1'', s_msg = m\<rparr>"



text \<open>
  The request and response of \<open>close_position\<close>. Their classes are declared in a module
  that is not in the source tree; the fields are the ones the method reads and writes.
\<close>

record close_okx_position_request =
  cp_inst_id :: string
  cp_mgn_mode :: string
  cp_pos_side :: "string option"
  cp_ccy :: "string option"
  cp_auto_cxl :: "bool option"
  cp_cl_ord_id :: "string option"
  cp_tag :: "string option"

record close_okx_position_response =
  cpr_inst_id :: string
  cpr_pos_side :: "string option"
  cpr_cl_ord_id :: "string option"
  cpr_tag :: "string option"


record get_order_details_request =
  gd_inst_id :: string
  gd_ord_id :: "string option"
  gd_cl_ord_id :: "string option"

text \<open>
  \<open>OKXOrder(**order_data)\<close>: validation asks for every required field, under its alias or
  (the model populates by name) under its own name; the order is kept as the object read.
\<close>

type_synonym okx_order = py_dict

definition okx_order_required :: "(string \<times> string) list" where
  "okx_order_required =
     [(''instId'', ''inst_id''), (''ordId'', ''ord_id''), (''px'', ''px''), (''sz'', ''sz''),
      (''ordType'', ''ord_type''), (''side'', ''side''), (''tdMode'', ''td_mode''),
      (''accFillSz'', ''acc_fill_sz''), (''fillPx'', ''fill_px''), (''tradeId'', ''trade_id''),
      (''fillSz'', ''fill_sz''), (''fillTime'', ''fill_time''), (''state'', ''state''),
      (''avgPx'', ''avg_px''), (''lever'', ''lever''), (''feeCcy'', ''fee_ccy''), (''fee'', ''fee''),
      (''rebateCcy'', ''rebate_ccy''), (''rebate'', ''rebate''), (''pnl'', ''pnl''),
      (''source'', ''source''), (''category'', ''category''), (''uTime'', ''u_time''),
      (''cTime'', ''c_time'')]"

definition OKXOrder :: "py_dict \<Rightarrow> py_exn + okx_order" where
  "OKXOrder d =
     (if list_all (\<lambda>(alias, name). d alias \<noteq> None \<or> d name \<noteq> None) okx_order_required
      then Inr d else Inl (ValueError ''validation error for OKXOrder''))"

section \<open>OKXTradingService\<close>

text \<open>
  The message of the "request failed to send" branch:
  \<open>result.get('msg', 'Unknown error') if result else 'No response'\<close>.
\<close>

definition error_msg :: "vendor_result \<Rightarrow> string" where
  "error_msg result =
     (case result of
        NoResponse \<Rightarrow> ''No response''
      | Response m d \<Rightarrow> (case m of None \<Rightarrow> ''Unknown error'' | Some t \<Rightarrow> t))"

text \<open>\<open>not result or 'data' not in result or not result['data']\<close>\<close>

definition no_data :: "vendor_result \<Rightarrow> bool" where
  "no_data result =
     (case result of
        NoResponse \<Rightarrow> True
      | Response m d \<Rightarrow> (case d of None \<Rightarrow> True | Some rows \<Rightarrow> rows = []))"

text \<open>\<open>result['data'][0]\<close>, read once \<open>no_data\<close> is excluded.\<close>

definition first_data :: "vendor_result \<Rightarrow> py_exn + py_dict" where
  "first_data result =
     (case result of
        NoResponse \<Rightarrow> Inl (KeyError ''data'')
      | Response m d \<Rightarrow>
          (case d of
             None \<Rightarrow> Inl (KeyError ''data'')
           | Some rows \<Rightarrow> (case rows of [] \<Rightarrow> Inl IndexError | row # rest \<Rightarrow> Inr row)))"

text \<open>\<open>self.base_service.trade_api.<method>(**params)\<close>; the attribute may still be \<open>None\<close>.\<close>

definition call_trade_api :: "py_state \<Rightarrow> nat \<Rightarrow> (kwargs \<Rightarrow> py_exn + vendor_result) \<Rightarrow> kwargs
    \<Rightarrow> py_exn + vendor_result" where
  "call_trade_api s a api params =
     (case heap s a of
        None \<Rightarrow> Inl (AttributeError ''base_service'')
      | Some obj \<Rightarrow>
          (case trade_api obj of
             None \<Rightarrow> Inl (AttributeError ''NoneType object has no attribute'')
           | Some client \<Rightarrow> api params))"

definition order_params :: "okx_trade_request \<Rightarrow> kwargs" where
  "order_params req =
     (put_str ''bannerFlag'' (tr_banner_flag req)
     (put_str ''stpMode'' (tr_stp_mode req)
     (put_str ''stpId'' (tr_stp_id req)
     (put_str ''quickMgnType'' (tr_quick_margin_type req)
     (put_str ''slTriggerPxType'' (tr_sl_trigger_px_type req)
     (put_str ''tpTriggerPxType'' (tr_tp_trigger_px_type req)
     (put_str ''slOrdPx'' (tr_sl_ord_px req)
     (put_str ''slTriggerPx'' (tr_sl_trigger_px req)
     (put_str ''tpOrdPx'' (tr_tp_ord_px req)
     (put_str ''tpTriggerPx'' (tr_tp_trigger_px req)
     (put_bool ''reduceOnly'' (tr_reduce_only req)
     (put_str ''posSide'' (map_option position_side_value (tr_pos_side req))
     (put_str ''tag'' (tr_tag req)
     (put_str ''clOrdId'' (tr_cl_ord_id req)
     (put_str ''ccy'' (tr_ccy req)
     (put_str ''px'' (tr_px req)
       [(''instId'', Str (tr_inst_id req)),
        (''tdMode'', Str (trade_mode_value (tr_td_mode req))),
        (''side'', Str (order_side_value (tr_side req))),
        (''ordType'', Str (tr_ord_type req)),
        (''sz'', Str (tr_sz req))]))))))))))))))))"

text \<open>
  How \<open>place_order\<close> reads the venue's answer (the code after \<open>set_order\<close> returns). A key
  read with \<open>[...]\<close> that is missing raises \<open>KeyError\<close>, in the order the code reads them.
\<close>

definition interpret_order_result :: "vendor_result \<Rightarrow> py_exn + okx_trade_response" where
  "interpret_order_result result =
     (if no_data result then Inr (failure_response (''Order failed: '' @ error_msg result))
      else
        (case first_data result of
           Inl e \<Rightarrow> Inl e
         | Inr order_data \<Rightarrow>
             (case getitem order_data ''sCode'' of
                Inl e \<Rightarrow> Inl e
              | Inr code \<Rightarrow>
                  if code \<noteq> ''0'' then
                    (case getitem order_data ''sMsg'' of
                       Inl e \<Rightarrow> Inl e
                     | Inr m \<Rightarrow>
                         Inr \<lparr>ord_id = get_default order_data ''ordId'' [],
                              cl_ord_id = order_data ''clOrdId'', tag = order_data ''tag'',
                              s_code = code, s_msg = m\<rparr>)
                  else
                    (case getitem order_data ''ordId'' of
                       Inl e \<Rightarrow> Inl e
                     | Inr oid \<Rightarrow>
                         (case getitem order_data ''sMsg'' of
                            Inl e \<Rightarrow> Inl e
                          | Inr m \<Rightarrow>
                              Inr \<lparr>ord_id = oid, cl_ord_id = order_data ''clOrdId'',
                                   tag = order_data ''tag'', s_code = code, s_msg = m\<rparr>)))))"

text \<open>The \<open>try\<close> block of \<open>place_order\<close>.\<close>

definition place_order_try :: "okx_world \<Rightarrow> py_state \<Rightarrow> nat \<Rightarrow> okx_trade_request
    \<Rightarrow> py_exn + okx_trade_response" where
  "place_order_try w s a req =
     (case call_trade_api s a (set_order w) (order_params req) of
        Inl e \<Rightarrow> Inl e
      | Inr result \<Rightarrow> interpret_order_result result)"

text \<open>
  The body of \<open>place_order\<close>: the connection check, the \<open>try\<close> block, and the
  \<open>except Exception\<close> that turns every exception into a response.
\<close>

definition place_order_body :: "(nat \<Rightarrow> string \<Rightarrow> string) \<Rightarrow> okx_world \<Rightarrow> py_state \<Rightarrow> nat
    \<Rightarrow> okx_trade_request \<Rightarrow> py_exn + okx_trade_response" where
  "place_order_body http_str w s a req =
     (if \<not> ensure_connected w s a then Inr (failure_response ''Failed to connect to OKX API'')
      else
        (case place_order_try w s a req of
           Inl e \<Rightarrow> Inr (failure_response (exn_str http_str e))
         | Inr r \<Rightarrow> Inr r))"

definition place_order_method :: "(nat \<Rightarrow> string \<Rightarrow> string)
    \<Rightarrow> (okx_trade_request, okx_trade_response) service_method" where
  "place_order_method http_str = \<lparr>retry_stop = Some 3, body = place_order_body http_str\<rparr>"

definition place_order :: "(nat \<Rightarrow> 'w) \<Rightarrow> (py_exn \<Rightarrow> py_exn + okx_trade_response)
    \<Rightarrow> (nat \<Rightarrow> string \<Rightarrow> string) \<Rightarrow> (nat \<Rightarrow> okx_world) \<Rightarrow> py_state \<Rightarrow> nat \<Rightarrow> okx_trade_request
    \<Rightarrow> (py_exn + okx_trade_response) \<times> nat \<times> 'w list" where
  "place_order wait handle http_str = call_method wait handle (place_order_method http_str)"











text \<open>\<open>get_order_details\<close>: \<open>None\<close> when not connected, without an id, without data, or on
  any exception.\<close>

definition get_order_details_try :: "okx_world \<Rightarrow> py_state \<Rightarrow> nat \<Rightarrow> get_order_details_request
    \<Rightarrow> py_exn + okx_order option" where
  "get_order_details_try w s a req =
     (if \<not> truthy (gd_ord_id req) \<and> \<not> truthy (gd_cl_ord_id req) then Inr None
      else
        (case call_trade_api s a (get_order w)
                (if truthy (gd_ord_id req)
                 then put_str ''ordId'' (gd_ord_id req) [(''instId'', Str (gd_inst_id req))]
                 else put_str ''clOrdId'' (gd_cl_ord_id req) [(''instId'', Str (gd_inst_id req))]) of
           Inl e \<Rightarrow> Inl e
         | Inr result \<Rightarrow>
             if no_data result then Inr None
             else
               (case first_data result of
                  Inl e \<Rightarrow> Inl e
                | Inr order_data \<Rightarrow>
                    (case OKXOrder order_data of Inl e \<Rightarrow> Inl e | Inr order \<Rightarrow> Inr (Some order)))))"

definition get_order_details :: "okx_world \<Rightarrow> py_state \<Rightarrow> nat \<Rightarrow> get_order_details_request
    \<Rightarrow> py_exn + okx_order option" where
  "get_order_details w s a req =
     (if \<not> ensure_connected w s a then Inr None
      else (case get_order_details_try w s a req of Inl e \<Rightarrow> Inr None | Inr order \<Rightarrow> Inr order))"

definition get_order_details_method
    :: "(get_order_details_request, okx_order option) service_method" where
  "get_order_details_method = \<lparr>retry_stop = None, body = get_order_details\<rparr>"

text \<open>\<open>close_position\<close>: decorated like \<open>place_order\<close>; every failure echoes the request.\<close>

definition close_echo :: "close_okx_position_request \<Rightarrow> close_okx_position_response" where
  "close_echo req = \<lparr>cpr_inst_id = cp_inst_id req, cpr_pos_side = cp_pos_side req,
     cpr_cl_ord_id = cp_cl_ord_id req, cpr_tag = cp_tag req\<rparr>"

definition close_params :: "close_okx_position_request \<Rightarrow> kwargs" where
  "close_params req =
     (put_str ''tag'' (cp_tag req)
     (put_str ''clOrdId'' (cp_cl_ord_id req)
     (put_bool ''autoCxl'' (cp_auto_cxl req)
     (put_str ''ccy'' (cp_ccy req)
     (put_str ''posSide'' (cp_pos_side req)
       [(''instId'', Str (cp_inst_id req)), (''mgnMode'', Str (cp_mgn_mode req))])))))"

definition close_position_try :: "okx_world \<Rightarrow> py_state \<Rightarrow> nat \<Rightarrow> close_okx_position_request
    \<Rightarrow> py_exn + close_okx_position_response" where
  "close_position_try w s a req =
     (case call_trade_api s a (set_close_position w) (close_params req) of
        Inl e \<Rightarrow> Inl e
      | Inr result \<Rightarrow>
          if no_data result then Inr (close_echo req)
          else
            (case first_data result of
               Inl e \<Rightarrow> Inl e
             | Inr close_data \<Rightarrow>
                 Inr \<lparr>cpr_inst_id = get_default close_data ''instId'' (cp_inst_id req),
                      cpr_pos_side =
                        (case close_data ''posSide'' of None \<Rightarrow> cp_pos_side req | Some v \<Rightarrow> Some v),
                      cpr_cl_ord_id =
                        (case close_data ''clOrdId'' of None \<Rightarrow> cp_cl_ord_id req | Some v \<Rightarrow> Some v),
                      cpr_tag =
                        (case close_data ''tag'' of None \<Rightarrow> cp_tag req | Some v \<Rightarrow> Some v)\<rparr>))"

definition close_position_body :: "okx_world \<Rightarrow> py_state \<Rightarrow> nat \<Rightarrow> close_okx_position_request
    \<Rightarrow> py_exn + close_okx_position_response" where
  "close_position_body w s a req =
     (if \<not> ensure_connected w s a then Inr (close_echo req)
      else
        (case close_position_try w s a req of
           Inl e \<Rightarrow> Inr (close_echo req)
         | Inr r \<Rightarrow> Inr r))"

definition close_position_method
    :: "(close_okx_position_request, close_okx_position_response) service_method" where
  "close_position_method = \<lparr>retry_stop = Some 3, body = close_position_body\<rparr>"

definition close_position :: "(nat \<Rightarrow> 'w) \<Rightarrow> (py_exn \<Rightarrow> py_exn + close_okx_position_response)
    \<Rightarrow> (nat \<Rightarrow> okx_world) \<Rightarrow> py_state \<Rightarrow> nat \<Rightarrow> close_okx_position_request
    \<Rightarrow> (py_exn + close_okx_position_response) \<times> nat \<times> 'w list" where
  "close_position wait handle = call_method wait handle close_position_method"

section \<open>OKXAlgoService: the shared response handler\<close>

record okx_algo_order_response =
  algo_id :: string
  algo_cl_ord_id :: "string option"
  algo_s_code :: string
  algo_s_msg :: string


text \<open>\<open>_handle_algo_response\<close> has no \<open>try\<close> of its own: a missing key raises to the caller.\<close>

definition handle_algo_response :: "vendor_result \<Rightarrow> py_exn + okx_algo_order_response" where
  "handle_algo_response result =
     (if no_data result
      then Inr \<lparr>algo_id = [], algo_cl_ord_id = None, algo_s_code = ''1'',
                algo_s_msg = ''Algo order failed: '' @ error_msg result\<rparr>
      else
        (case first_data result of
           Inl e \<Rightarrow> Inl e
         | Inr order_data \<Rightarrow>
             (case getitem order_data ''sCode'' of
                Inl e \<Rightarrow> Inl e
              | Inr code \<Rightarrow>
                  if code \<noteq> ''0'' then
                    (case getitem order_data ''sMsg'' of
                       Inl e \<Rightarrow> Inl e
                     | Inr m \<Rightarrow>
                         Inr \<lparr>algo_id = get_default order_data ''algoId'' [],
                              algo_cl_ord_id = order_data ''algoClOrdId'',
                              algo_s_code = code, algo_s_msg = m\<rparr>)
                  else
                    (case getitem order_data ''algoId'' of
                       Inl e \<Rightarrow> Inl e
                     | Inr aid \<Rightarrow>
                         (case getitem order_data ''sMsg'' of
                            Inl e \<Rightarrow> Inl e
                          | Inr m \<Rightarrow>
                              Inr \<lparr>algo_id = aid, algo_cl_ord_id = order_data ''algoClOrdId'',
                                   algo_s_code = code, algo_s_msg = m\<rparr>)))))"

section \<open>The HTTP router of the trading service\<close>

text \<open>
  What the client receives: the returned body, or the status and detail of the
  \<open>HTTPException\<close> that left the handler.
\<close>

datatype 'a http_response = Ok200 'a | HttpError nat string

text \<open>
  \<open>try: ... except Exception as e: raise HTTPException(status_code=500, detail=str(e))\<close>.
  \<open>HTTPException\<close> is a subclass of \<open>Exception\<close>, so the handler also catches the
  \<open>HTTPException\<close> raised inside the \<open>try\<close>.
\<close>

definition except_exception_500 :: "(nat \<Rightarrow> string \<Rightarrow> string) \<Rightarrow> py_exn + 'a \<Rightarrow> 'a http_response" where
  "except_exception_500 http_str tried =
     (case tried of
        Inl e \<Rightarrow> HttpError 500 (exn_str http_str e)
      | Inr v \<Rightarrow> Ok200 v)"

text \<open>\<open>POST /trading/place-order\<close>\<close>

definition place_order_endpoint :: "(nat \<Rightarrow> 'w) \<Rightarrow> (py_exn \<Rightarrow> py_exn + okx_trade_response)
    \<Rightarrow> (nat \<Rightarrow> string \<Rightarrow> string) \<Rightarrow> (nat \<Rightarrow> okx_world) \<Rightarrow> py_state \<Rightarrow> nat \<Rightarrow> okx_trade_request
    \<Rightarrow> okx_trade_response http_response" where
  "place_order_endpoint wait handle http_str worlds s a trade_request =
     except_exception_500 http_str
       (case fst (place_order wait handle http_str worlds s a trade_request) of
          Inl e \<Rightarrow> Inl e
        | Inr result \<Rightarrow>
            if \<not> success result then Inl (HTTPException 400 (s_msg result))
            else Inr result)"

text \<open>\<open>GET /trading/order/{inst_id}\<close> with the query parameters \<open>ord_id\<close> and \<open>cl_ord_id\<close>:
  the first check stands before the \<open>try\<close>.\<close>

definition get_order_details_endpoint :: "(nat \<Rightarrow> 'w) \<Rightarrow> (py_exn \<Rightarrow> py_exn + okx_order option)
    \<Rightarrow> (nat \<Rightarrow> string \<Rightarrow> string) \<Rightarrow> (nat \<Rightarrow> okx_world) \<Rightarrow> py_state \<Rightarrow> nat
    \<Rightarrow> string \<Rightarrow> string option \<Rightarrow> string option \<Rightarrow> okx_order http_response" where
  "get_order_details_endpoint wait handle http_str worlds s a inst_id q_ord_id q_cl_ord_id =
     (if \<not> truthy q_ord_id \<and> \<not> truthy q_cl_ord_id
      then HttpError 400 ''Either ord_id or cl_ord_id must be provided''
      else
        except_exception_500 http_str
          (case fst (call_method wait handle get_order_details_method worlds s a
                  \<lparr>gd_inst_id = inst_id, gd_ord_id = q_ord_id, gd_cl_ord_id = q_cl_ord_id\<rparr>) of
             Inl e \<Rightarrow> Inl e
           | Inr order \<Rightarrow>
               (case order of
                  None \<Rightarrow> Inl (HTTPException 404 ''Order not found'')
                | Some found \<Rightarrow> Inr found)))"

section \<open>Discord messages\<close>

text \<open>
  A message as Discord's API returns it, with the keys the service reads. A key read with
  \<open>.get\<close> is an option (\<open>None\<close>: the key is absent); \<open>msg_message_reference\<close> tells
  whether \<open>message_reference\<close> is present and true.
\<close>

record raw_author =
  author_id :: string
  author_username :: string

record raw_embed =
  embed_description :: "string option"
  embed_title :: "string option"

record raw_attachment =
  attachment_url :: "string option"

record raw_referenced_message =
  ref_id :: string
  ref_content :: "string option"
  ref_author :: raw_author
  ref_attachments :: "raw_attachment list"

record raw_message =
  msg_id :: string
  msg_timestamp :: string
  msg_author :: raw_author
  msg_content :: "string option"
  msg_embeds :: "raw_embed list"
  msg_attachments :: "raw_attachment list"
  msg_message_reference :: bool
  msg_referenced_message :: "raw_referenced_message option"

text \<open>The models of \<open>models/discord/message.py\<close>.\<close>

record reply_to_message =
  rt_message_id :: string
  rt_author :: string
  rt_content :: string
  rt_attachments :: "string list"

record discord_message =
  message_id :: string
  content :: string
  attachments :: "string list"
  reply_to :: "reply_to_message option"

record message_group =
  group_id :: int
  group_timestamp :: string
  group_username :: string
  messages :: "discord_message list"

record discord_data =
  data_username :: string
  total_messages :: nat
  exported_count :: nat
  timespan_from :: string
  timespan_to :: string
  message_groups :: "message_group list"
  discord_channel_id :: string
  target_user_id :: string

record discord_fetch_request =
  req_discord_token :: "string option"
  req_channel_id :: "string option"
  req_target_user_id :: "string option"
  req_limit :: int

record discord_settings =
  DISCORD_USER_TOKEN :: "string option"
  DISCORD_CHANNEL_ID :: "string option"
  TARGET_USER_ID :: "string option"

subsection \<open>Strings and timestamps\<close>

text \<open>\<open>str.strip()\<close>: leading and trailing whitespace goes.\<close>

definition is_space :: "char \<Rightarrow> bool" where
  "is_space c = (c \<in> {CHR '' '', CHR 0x09, CHR 0x0A, CHR 0x0B, CHR 0x0C, CHR 0x0D,
     CHR 0x1C, CHR 0x1D, CHR 0x1E, CHR 0x1F})"

definition strip :: "string \<Rightarrow> string" where
  "strip t = rev (dropWhile is_space (rev (dropWhile is_space t)))"

definition str_or_empty :: "string option \<Rightarrow> string" where
  "str_or_empty v = (case v of None \<Rightarrow> [] | Some t \<Rightarrow> t)"

text \<open>\<open>ts.replace("Z", "+00:00")\<close>\<close>

definition replace_Z :: "string \<Rightarrow> string" where
  "replace_Z ts = concat (map (\<lambda>c. if c = CHR ''Z'' then ''+00:00'' else [c]) ts)"

text \<open>
  A parsed \<open>datetime\<close>: the instant in microseconds since the epoch, and what
  \<open>strftime("%d/%m/%Y %H:%M")\<close> prints for it. \<open>datetime.fromisoformat\<close> belongs to the
  standard library and is a parameter of the model; it gives \<open>None\<close> where it raises
  \<open>ValueError\<close>. Timestamps carry a UTC offset, as Discord's do.
\<close>

record py_datetime =
  instant_us :: int
  dmy_hm :: string

type_synonym fromisoformat = "string \<Rightarrow> py_datetime option"

definition parse_timestamp :: "fromisoformat \<Rightarrow> string \<Rightarrow> py_exn + py_datetime" where
  "parse_timestamp fromiso ts =
     (case fromiso (replace_Z ts) of
        None \<Rightarrow> Inl (ValueError ''Invalid isoformat string'')
      | Some t \<Rightarrow> Inr t)"

text \<open>
  \<open>abs((last - current).total_seconds() / 60) <= 5\<close>. The difference of two datetimes
  is a whole number of microseconds; the two float divisions are monotone and exact at
  the bound, so the test is that the difference is at most 300000000 microseconds.
\<close>

definition within_5_minutes :: "py_datetime \<Rightarrow> py_datetime \<Rightarrow> bool" where
  "within_5_minutes last_timestamp current_timestamp =
     (\<bar>instant_us last_timestamp - instant_us current_timestamp\<bar> \<le> 300000000)"

subsection \<open>\<open>_create_message_group\<close>\<close>

text \<open>The loop over the embeds: the first description or title that is not empty.\<close>

fun embed_text :: "raw_embed list \<Rightarrow> string \<Rightarrow> string" where
  "embed_text [] text = text"
| "embed_text (emb # rest) text =
     (if truthy (embed_description emb) then str_or_empty (embed_description emb)
      else if truthy (embed_title emb) then str_or_empty (embed_title emb)
      else embed_text rest text)"

definition attachment_urls :: "raw_attachment list \<Rightarrow> string list" where
  "attachment_urls atts =
     map (\<lambda>att. str_or_empty (attachment_url att)) (filter (\<lambda>att. truthy (attachment_url att)) atts)"

definition to_reply :: "raw_message \<Rightarrow> reply_to_message option" where
  "to_reply msg =
     (if msg_message_reference msg then
        (case msg_referenced_message msg of
           None \<Rightarrow> None
         | Some replied_msg \<Rightarrow>
             Some \<lparr>rt_message_id = ref_id replied_msg,
                   rt_author = author_username (ref_author replied_msg),
                   rt_content = strip (str_or_empty (ref_content replied_msg)),
                   rt_attachments = attachment_urls (ref_attachments replied_msg)\<rparr>)
      else None)"

text \<open>The body of the loop over \<open>group_messages\<close>: one \<open>DiscordMessage\<close> per raw message.\<close>

definition to_discord_message :: "raw_message \<Rightarrow> discord_message" where
  "to_discord_message msg =
     \<lparr>message_id = msg_id msg,
      content =
        (if strip (str_or_empty (msg_content msg)) = [] \<and> msg_embeds msg \<noteq> []
         then embed_text (msg_embeds msg) (strip (str_or_empty (msg_content msg)))
         else strip (str_or_empty (msg_content msg))),
      attachments = attachment_urls (msg_attachments msg),
      reply_to = to_reply msg\<rparr>"

definition create_message_group :: "fromisoformat \<Rightarrow> int \<Rightarrow> raw_message list
    \<Rightarrow> py_exn + message_group" where
  "create_message_group fromiso gid group_messages =
     (case group_messages of
        [] \<Rightarrow> Inl IndexError
      | first_msg # rest \<Rightarrow>
          (case parse_timestamp fromiso (msg_timestamp first_msg) of
             Inl e \<Rightarrow> Inl e
           | Inr timestamp \<Rightarrow>
               Inr \<lparr>group_id = gid, group_timestamp = dmy_hm timestamp,
                    group_username = author_username (msg_author first_msg),
                    messages = map to_discord_message group_messages\<rparr>))"

subsection \<open>\<open>_group_messages_by_time\<close>\<close>

text \<open>
  The loop from the second message on: \<open>groups\<close> is \<open>message_groups\<close> and \<open>cur\<close> is
  \<open>current_group\<close>. The first message (\<open>i == 0\<close>) only opens the first group.
\<close>

fun group_loop :: "fromisoformat \<Rightarrow> raw_message list \<Rightarrow> message_group list \<Rightarrow> raw_message list
    \<Rightarrow> py_exn + (message_group list \<times> raw_message list)" where
  "group_loop fromiso [] groups cur = Inr (groups, cur)"
| "group_loop fromiso (msg # rest) groups cur =
     (case parse_timestamp fromiso (msg_timestamp msg) of
        Inl e \<Rightarrow> Inl e
      | Inr current_timestamp \<Rightarrow>
          (case cur of
             [] \<Rightarrow> Inl IndexError
           | c # cs \<Rightarrow>
               (case parse_timestamp fromiso (msg_timestamp (last cur)) of
                  Inl e \<Rightarrow> Inl e
                | Inr last_timestamp \<Rightarrow>
                    if within_5_minutes last_timestamp current_timestamp
                    then group_loop fromiso rest groups (cur @ [msg])
                    else
                      (case create_message_group fromiso (int (length groups) + 1) cur of
                         Inl e \<Rightarrow> Inl e
                       | Inr g \<Rightarrow> group_loop fromiso rest (groups @ [g]) [msg]))))"

definition group_messages_by_time :: "fromisoformat \<Rightarrow> raw_message list
    \<Rightarrow> py_exn + message_group list" where
  "group_messages_by_time fromiso msgs =
     (case (case msgs of
              [] \<Rightarrow> Inr ([], [])
            | first_msg # rest \<Rightarrow> group_loop fromiso rest [] [first_msg]) of
        Inl e \<Rightarrow> Inl e
      | Inr (groups, cur) \<Rightarrow>
          if cur \<noteq> [] then
            (case create_message_group fromiso (int (length groups) + 1) cur of
               Inl e \<Rightarrow> Inl e
             | Inr g \<Rightarrow> Inr (groups @ [g]))
          else Inr groups)"

subsection \<open>\<open>fetch_discord_messages\<close>\<close>

text \<open>
  \<open>requests.get(url, headers, params)\<close>: the call may raise; the reply has a status and
  a body, and reading the body as JSON may raise.
\<close>

record http_reply =
  status_code :: nat
  reply_json :: "py_exn + raw_message list"

type_synonym requests_get = "string \<Rightarrow> string \<Rightarrow> int \<Rightarrow> py_exn + http_reply"

text \<open>
  \<open>list.sort(key=..., reverse=True)\<close>: a stable sort in descending order of the key;
  elements with equal keys keep their order. Python gets it by reversing, sorting
  upwards and reversing again. The key here is the timestamp string.
\<close>

definition sort_reverse :: "('a \<Rightarrow> 'k::linorder) \<Rightarrow> 'a list \<Rightarrow> 'a list" where
  "sort_reverse key xs = rev (sort_key key (rev xs))"

definition request_token :: "discord_settings \<Rightarrow> discord_fetch_request \<Rightarrow> string option" where
  "request_token settings request = py_or (req_discord_token request) (DISCORD_USER_TOKEN settings)"

definition request_channel :: "discord_settings \<Rightarrow> discord_fetch_request \<Rightarrow> string option" where
  "request_channel settings request = py_or (req_channel_id request) (DISCORD_CHANNEL_ID settings)"

definition request_target :: "discord_settings \<Rightarrow> discord_fetch_request \<Rightarrow> string option" where
  "request_target settings request = py_or (req_target_user_id request) (TARGET_USER_ID settings)"

definition messages_url :: "string \<Rightarrow> string" where
  "messages_url channel = ''https://discord.com/api/v10/channels/'' @ channel @ ''/messages''"

text \<open>The filter on the author.\<close>

definition user_messages_of :: "string \<Rightarrow> raw_message list \<Rightarrow> raw_message list" where
  "user_messages_of target msgs = filter (\<lambda>msg. author_id (msg_author msg) = target) msgs"

text \<open>What is built from the user's messages once there are some.\<close>

definition build_discord_data :: "fromisoformat \<Rightarrow> string \<Rightarrow> string \<Rightarrow> raw_message list
    \<Rightarrow> py_exn + discord_data" where
  "build_discord_data fromiso channel target user_messages =
     (let sorted_messages = sort_reverse msg_timestamp user_messages;
          top_10_messages = take 10 sorted_messages
      in case group_messages_by_time fromiso top_10_messages of
           Inl e \<Rightarrow> Inl e
         | Inr groups \<Rightarrow>
             (case sorted_messages of
                [] \<Rightarrow> Inl IndexError
              | newest # others \<Rightarrow>
                  (case parse_timestamp fromiso (msg_timestamp (last top_10_messages)) of
                     Inl e \<Rightarrow> Inl e
                   | Inr oldest_time \<Rightarrow>
                       (case parse_timestamp fromiso (msg_timestamp newest) of
                          Inl e \<Rightarrow> Inl e
                        | Inr newest_time \<Rightarrow>
                            Inr \<lparr>data_username = author_username (msg_author newest),
                                 total_messages = length user_messages,
                                 exported_count = length top_10_messages,
                                 timespan_from = dmy_hm oldest_time,
                                 timespan_to = dmy_hm newest_time,
                                 message_groups = groups,
                                 discord_channel_id = channel,
                                 target_user_id = target\<rparr>))))"

text \<open>The \<open>try\<close> block of \<open>fetch_discord_messages\<close>.\<close>

definition fetch_try :: "fromisoformat \<Rightarrow> discord_settings \<Rightarrow> requests_get
    \<Rightarrow> discord_fetch_request \<Rightarrow> py_exn + discord_data option" where
  "fetch_try fromiso settings get request =
     (if \<not> (truthy (request_token settings request) \<and> truthy (request_channel settings request)
             \<and> truthy (request_target settings request))
      then Inl (ValueError ''Missing required Discord credentials'')
      else
        (case get (messages_url (str_or_empty (request_channel settings request)))
                  (str_or_empty (request_token settings request)) (req_limit request) of
           Inl e \<Rightarrow> Inl e
         | Inr response \<Rightarrow>
             if status_code response \<noteq> 200 then Inr None
             else
               (case reply_json response of
                  Inl e \<Rightarrow> Inl e
                | Inr fetched \<Rightarrow>
                    if user_messages_of (str_or_empty (request_target settings request)) fetched = []
                    then Inr None
                    else
                      (case build_discord_data fromiso
                              (str_or_empty (request_channel settings request))
                              (str_or_empty (request_target settings request))
                              (user_messages_of (str_or_empty (request_target settings request))
                                 fetched) of
                         Inl e \<Rightarrow> Inl e
                       | Inr discord_data \<Rightarrow> Inr (Some discord_data)))))"

text \<open>\<open>except Exception\<close>: every exception is logged and \<open>None\<close> is returned.\<close>

definition fetch_discord_messages :: "fromisoformat \<Rightarrow> discord_settings \<Rightarrow> requests_get
    \<Rightarrow> discord_fetch_request \<Rightarrow> discord_data option" where
  "fetch_discord_messages fromiso settings get request =
     (case fetch_try fromiso settings get request of Inl e \<Rightarrow> None | Inr found \<Rightarrow> found)"

subsection \<open>\<open>save_to_database\<close>\<close>

text \<open>A document of the collection \<open>trading_signals\<close>, as \<open>save_to_database\<close> writes it.\<close>

record group_doc =
  doc_timestamp :: string
  doc_username :: string
  doc_messages :: "discord_message list"
  doc_discord_channel_id :: string
  doc_target_user_id :: string
  doc_created_at :: int

text \<open>
  The service's view of the store: whether \<open>self.db\<close> is set, and the documents of the
  collection in insertion order.
\<close>

record mongo =
  db_set :: bool
  collection :: "group_doc list"







text \<open>The ids of all messages stored in the collection.\<close>

definition stored_ids :: "mongo \<Rightarrow> string set" where
  "stored_ids db = set (concat (map (\<lambda>d. map message_id (doc_messages d)) (collection db)))"

section \<open>DiscordScheduler\<close>










text \<open>
  \<open>_fetch_messages_job\<close>: fetch with the default request and, when there is data, save
  it. Nothing is raised; the result is the store afterwards.
\<close>

definition default_request :: discord_fetch_request where
  "default_request = \<lparr>req_discord_token = None, req_channel_id = None,
     req_target_user_id = None, req_limit = 100\<rparr>"



section \<open>Notions used to state the properties of the harvester\<close>

text \<open>Two messages whose timestamps parse and lie at most five minutes apart.\<close>

definition close_in_time :: "fromisoformat \<Rightarrow> raw_message \<Rightarrow> raw_message \<Rightarrow> bool" where
  "close_in_time fromiso a b =
     (case fromiso (replace_Z (msg_timestamp a)) of
        None \<Rightarrow> False
      | Some ta \<Rightarrow>
          (case fromiso (replace_Z (msg_timestamp b)) of
             None \<Rightarrow> False
           | Some tb \<Rightarrow> \<bar>instant_us ta - instant_us tb\<bar> \<le> 300000000))"

text \<open>The raw messages cut where two neighbours are more than five minutes apart.\<close>

fun split_by_gap :: "fromisoformat \<Rightarrow> raw_message list \<Rightarrow> raw_message list
    \<Rightarrow> raw_message list list" where
  "split_by_gap fromiso cur [] = [cur]"
| "split_by_gap fromiso cur (m # ms) =
     (if close_in_time fromiso (last cur) m then split_by_gap fromiso (cur @ [m]) ms
      else cur # split_by_gap fromiso [m] ms)"



text \<open>The group \<open>_create_message_group\<close> builds from messages whose first timestamp parses.\<close>

definition group_of :: "fromisoformat \<Rightarrow> int \<Rightarrow> raw_message list \<Rightarrow> message_group" where
  "group_of fromiso gid p =
     \<lparr>group_id = gid,
      group_timestamp = dmy_hm (the (fromiso (replace_Z (msg_timestamp (hd p))))),
      group_username = author_username (msg_author (hd p)),
      messages = map to_discord_message p\<rparr>"

text \<open>The groups of the raw messages cut by \<open>split_by_gap\<close>, numbered from \<open>gid\<close>.\<close>

fun groups_from :: "fromisoformat \<Rightarrow> int \<Rightarrow> raw_message list \<Rightarrow> raw_message list
    \<Rightarrow> message_group list" where
  "groups_from fromiso gid cur [] = [group_of fromiso gid cur]"
| "groups_from fromiso gid cur (m # ms) =
     (if close_in_time fromiso (last cur) m then groups_from fromiso gid (cur @ [m]) ms
      else group_of fromiso gid cur # groups_from fromiso (gid + 1) [m] ms)"

text \<open>The timestamp of a message parses.\<close>

definition parses :: "fromisoformat \<Rightarrow> raw_message \<Rightarrow> bool" where
  "parses fromiso m = (fromiso (replace_Z (msg_timestamp m)) \<noteq> None)"

text \<open>The reply to the one request a call makes, the user it looks for, and the user's
  ten newest messages among those fetched.\<close>

definition discord_reply :: "discord_settings \<Rightarrow> requests_get \<Rightarrow> discord_fetch_request
    \<Rightarrow> py_exn + http_reply" where
  "discord_reply settings get request =
     get (messages_url (str_or_empty (request_channel settings request)))
         (str_or_empty (request_token settings request)) (req_limit request)"

definition target_of :: "discord_settings \<Rightarrow> discord_fetch_request \<Rightarrow> string" where
  "target_of settings request = str_or_empty (request_target settings request)"

definition top_10_of :: "string \<Rightarrow> raw_message list \<Rightarrow> raw_message list" where
  "top_10_of target fetched = take 10 (sort_reverse msg_timestamp (user_messages_of target fetched))"


section \<open>The vendor's wire format, and concrete scenarios\<close>





text \<open>
  A library function that knows four timestamps, and messages of two authors: three of
  the target user (two of them three minutes apart, the third an hour older) and one of
  somebody else.
\<close>

definition demo_fromiso :: fromisoformat where
  "demo_fromiso ts =
     (if ts = ''2024-05-01T10:01:00+00:00''
      then Some \<lparr>instant_us = 1714557660000000, dmy_hm = ''01/05/2024 10:01''\<rparr>
      else if ts = ''2024-05-01T10:00:00+00:00''
      then Some \<lparr>instant_us = 1714557600000000, dmy_hm = ''01/05/2024 10:00''\<rparr>
      else if ts = ''2024-05-01T09:57:00+00:00''
      then Some \<lparr>instant_us = 1714557420000000, dmy_hm = ''01/05/2024 09:57''\<rparr>
      else if ts = ''2024-05-01T09:00:00+00:00''
      then Some \<lparr>instant_us = 1714554000000000, dmy_hm = ''01/05/2024 09:00''\<rparr>
      else None)"

definition demo_message :: "string \<Rightarrow> string \<Rightarrow> string \<Rightarrow> string \<Rightarrow> raw_message" where
  "demo_message mid ts uid text =
     \<lparr>msg_id = mid, msg_timestamp = ts,
      msg_author = \<lparr>author_id = uid, author_username = ''user'' @ uid\<rparr>,
      msg_content = Some text, msg_embeds = [], msg_attachments = [],
      msg_message_reference = False, msg_referenced_message = None\<rparr>"

definition demo_m0 :: raw_message where
  "demo_m0 = demo_message ''1004'' ''2024-05-01T10:01:00Z'' ''7'' ''hello''"

definition demo_m1 :: raw_message where
  "demo_m1 = demo_message ''1003'' ''2024-05-01T10:00:00Z'' ''42'' ''BUY BTC''"

definition demo_m2 :: raw_message where
  "demo_m2 = demo_message ''1002'' ''2024-05-01T09:57:00Z'' ''42'' ''SL 60000''"

definition demo_m3 :: raw_message where
  "demo_m3 = demo_message ''1001'' ''2024-05-01T09:00:00Z'' ''42'' ''SELL ETH''"

definition demo_d1 :: discord_message where
  "demo_d1 = \<lparr>message_id = ''1003'', content = ''BUY BTC'', attachments = [], reply_to = None\<rparr>"

definition demo_d2 :: discord_message where
  "demo_d2 = \<lparr>message_id = ''1002'', content = ''SL 60000'', attachments = [], reply_to = None\<rparr>"

definition demo_d3 :: discord_message where
  "demo_d3 = \<lparr>message_id = ''1001'', content = ''SELL ETH'', attachments = [], reply_to = None\<rparr>"

text \<open>
  The harvester's surroundings: settings naming the target user 42, a Discord API that
  answers with four messages (one of another author, the others out of order), the data
  built from them, and a store that already holds the oldest message.
\<close>

definition demo_settings :: discord_settings where
  "demo_settings = \<lparr>DISCORD_USER_TOKEN = Some ''token'', DISCORD_CHANNEL_ID = Some ''123'',
     TARGET_USER_ID = Some ''42''\<rparr>"

definition demo_get :: requests_get where
  "demo_get url authorization limit =
     Inr \<lparr>status_code = 200, reply_json = Inr [demo_m0, demo_m2, demo_m1, demo_m3]\<rparr>"

definition demo_data :: discord_data where
  "demo_data = \<lparr>data_username = ''user42'', total_messages = 3, exported_count = 3,
     timespan_from = ''01/05/2024 09:00'', timespan_to = ''01/05/2024 10:00'',
     message_groups =
       [\<lparr>group_id = 1, group_timestamp = ''01/05/2024 10:00'', group_username = ''user42'',
          messages = [demo_d1, demo_d2]\<rparr>,
        \<lparr>group_id = 2, group_timestamp = ''01/05/2024 09:00'', group_username = ''user42'',
          messages = [demo_d3]\<rparr>],
     discord_channel_id = ''123'', target_user_id = ''42''\<rparr>"





text \<open>A venue that answers every call with \<open>r\<close>, and one whose calls all raise \<open>e\<close>.\<close>

definition demo_world :: "vendor_result \<Rightarrow> okx_world" where
  "demo_world r = \<lparr>get_balance = Inr ''0'', set_order = (\<lambda>p. Inr r),
     set_cancel_order = (\<lambda>p. Inr r), set_amend_order = (\<lambda>p. Inr r),
     get_orders_history = (\<lambda>p. Inr r), get_order = (\<lambda>p. Inr r),
     set_close_position = (\<lambda>p. Inr r)\<rparr>"

definition raising_world :: "py_exn \<Rightarrow> okx_world" where
  "raising_world e = \<lparr>get_balance = Inr ''0'', set_order = (\<lambda>p. Inl e),
     set_cancel_order = (\<lambda>p. Inl e), set_amend_order = (\<lambda>p. Inl e),
     get_orders_history = (\<lambda>p. Inl e), get_order = (\<lambda>p. Inl e),
     set_close_position = (\<lambda>p. Inl e)\<rparr>"

text \<open>The interpreter after \<open>OKXBaseService()\<close> and a successful \<open>connect\<close>; the instance is at address 0.\<close>

definition connected_state :: py_state where
  "connected_state =
     snd (connect (demo_world NoResponse) ''key'' ''secret'' ''pass'' False 0
            (snd (OKXBaseService initial_state)))"

definition rejected_row :: py_dict where
  "rejected_row = [''sCode'' \<mapsto> ''51008'', ''sMsg'' \<mapsto> ''Insufficient balance'', ''ordId'' \<mapsto> []]"

definition accepted_row :: py_dict where
  "accepted_row = [''sCode'' \<mapsto> ''0'', ''sMsg'' \<mapsto> [], ''ordId'' \<mapsto> ''312269865356374016'',
     ''algoId'' \<mapsto> ''1753184812254216192'']"

definition demo_request :: okx_trade_request where
  "demo_request = \<lparr>tr_inst_id = ''BTC-USDT'', tr_td_mode = CASH, tr_side = BUY,
     tr_ord_type = ''market'', tr_sz = ''10'', tr_px = None, tr_ccy = None, tr_cl_ord_id = None,
     tr_tag = None, tr_pos_side = None, tr_reduce_only = None, tr_tp_trigger_px = None,
     tr_tp_ord_px = None, tr_sl_trigger_px = None, tr_sl_ord_px = None,
     tr_tp_trigger_px_type = None, tr_sl_trigger_px_type = None, tr_quick_margin_type = None,
     tr_stp_id = None, tr_stp_mode = None, tr_banner_flag = None\<rparr>"

section \<open>The order path: what one call does\<close>

declare retry_loop.simps [simp del]

lemma no_data_first: "no_data result \<longleftrightarrow> (\<forall>d. first_data result \<noteq> Inr d)"
  by (auto simp: no_data_def first_data_def split: vendor_result.splits option.splits list.splits)

text \<open>A first call that returns a value ends the retry loop: one call, no sleep.\<close>

lemma retry_value: "f (Suc 0) = Inr v \<Longrightarrow> retry n wait handle f = (Inr v, 1, [])"
  by (simp add: retry_def retry_loop.simps [of n wait handle f "Suc 0"])

text \<open>No body of the trading service lets an exception out.\<close>

lemma place_order_body_total: "\<exists>r. place_order_body http_str w s a req = Inr r"
  by (simp add: place_order_body_def split: sum.splits)

lemma close_position_body_total: "\<exists>r. close_position_body w s a req = Inr r"
  by (simp add: close_position_body_def split: sum.splits)

lemma place_order_once:
  "place_order wait handle http_str worlds s a req =
     (place_order_body http_str (worlds 1) s a req, 1, [])"
proof -
  obtain r where r: "place_order_body http_str (worlds 1) s a req = Inr r"
    using place_order_body_total by blast
  show ?thesis using r
    by (simp add: place_order_def call_method_def place_order_method_def retry_value)
qed


lemma interpret_rejected:
  "first_data result = Inr d \<Longrightarrow> d ''sCode'' = Some c \<Longrightarrow> c \<noteq> ''0'' \<Longrightarrow> d ''sMsg'' = Some m \<Longrightarrow>
   interpret_order_result result = Inr \<lparr>ord_id = get_default d ''ordId'' [],
      cl_ord_id = d ''clOrdId'', tag = d ''tag'', s_code = c, s_msg = m\<rparr>"
  by (simp add: interpret_order_result_def no_data_first getitem_def)


text \<open>
  Outside the wire format a key read with \<open>[...]\<close> is missing and \<open>KeyError\<close> is raised:
  \<open>place_order\<close> answers it with the failure response of its \<open>except\<close> branch, and the
  algo handler lets it go to its caller.
\<close>

lemma interpret_missing_key:
  "first_data result = Inr d \<Longrightarrow> d ''sCode'' = None \<Longrightarrow>
   interpret_order_result result = Inl (KeyError ''sCode'') \<and>
   handle_algo_response result = Inl (KeyError ''sCode'')"
  by (simp add: interpret_order_result_def handle_algo_response_def no_data_first getitem_def)




text \<open>Once the venue has answered, \<open>place_order\<close> returns what the answer is read as.\<close>

lemma place_order_sent:
  assumes "ensure_connected (worlds 1) s a"
      and "call_trade_api s a (set_order (worlds 1)) (order_params req) = Inr result"
      and "interpret_order_result result = Inr r"
    shows "place_order wait handle http_str worlds s a req = (Inr r, 1, [])"
  using assms by (simp add: place_order_once place_order_body_def place_order_try_def)

lemma connected_state_connected: "ensure_connected (demo_world r) connected_state 0"
  by (simp add: connected_state_def connect_def OKXBaseService_def okx_new_def okx_init_def
      initial_state_def blank_object_def initialized_def demo_world_def ensure_connected_def
      Let_def)

lemma connected_state_raising: "ensure_connected (raising_world e) connected_state 0"
  by (simp add: connected_state_def connect_def OKXBaseService_def okx_new_def okx_init_def
      initial_state_def blank_object_def initialized_def demo_world_def raising_world_def
      ensure_connected_def Let_def)

lemma connected_state_call: "call_trade_api connected_state 0 api params = api params"
  by (simp add: connected_state_def connect_def OKXBaseService_def okx_new_def okx_init_def
      initial_state_def blank_object_def initialized_def demo_world_def call_trade_api_def
      Let_def)



section \<open>Claims about the order path\<close>



text \<open>
  C1. The claim asks for status 400 with the vendor's \<open>sMsg\<close> as detail when the venue
  rejects the order. The handler raises that \<open>HTTPException(400)\<close> inside its own
  \<open>try\<close>, whose \<open>except Exception\<close> catches it and raises \<open>HTTPException(500)\<close> with
  \<open>str\<close> of the caught exception as detail: the client receives status 500.
\<close>

theorem place_order_endpoint_rejected:
  assumes "ensure_connected (worlds 1) s a"
      and "call_trade_api s a (set_order (worlds 1)) (order_params req) = Inr result"
      and "first_data result = Inr d" and "d ''sCode'' = Some c" and "c \<noteq> ''0''"
      and "d ''sMsg'' = Some m"
    shows "place_order_endpoint wait handle http_str worlds s a req
             = HttpError 500 (http_str 400 m)"
proof -
  have "interpret_order_result result = Inr \<lparr>ord_id = get_default d ''ordId'' [],
      cl_ord_id = d ''clOrdId'', tag = d ''tag'', s_code = c, s_msg = m\<rparr>"
    using assms by (simp add: interpret_rejected)
  then have "fst (place_order wait handle http_str worlds s a req)
      = Inr \<lparr>ord_id = get_default d ''ordId'' [],
             cl_ord_id = d ''clOrdId'', tag = d ''tag'', s_code = c, s_msg = m\<rparr>"
    using assms(1,2) by (simp add: place_order_sent)
  then show ?thesis using assms(5)
    by (simp add: place_order_endpoint_def except_exception_500_def success_def)
qed

theorem place_order_endpoint_rejected_witness:
  "place_order_endpoint (\<lambda>k. k) (\<lambda>e. Inl e) (\<lambda>status detail. detail)
      (\<lambda>k. demo_world (Response (Some []) (Some [rejected_row]))) connected_state 0 demo_request
    = HttpError 500 ''Insufficient balance''"
proof -
  let ?result = "Response (Some []) (Some [rejected_row])"
  have conn: "ensure_connected ((\<lambda>k. demo_world ?result) 1) connected_state 0"
    by (simp add: connected_state_connected)
  have sent: "call_trade_api connected_state 0 (set_order ((\<lambda>k. demo_world ?result) 1))
      (order_params demo_request) = Inr ?result"
    by (simp add: connected_state_call demo_world_def)
  have row: "first_data ?result = Inr rejected_row"
    by (simp add: first_data_def)
  have code: "rejected_row ''sCode'' = Some ''51008''" and ne: "''51008'' \<noteq> ''0''"
    and m: "rejected_row ''sMsg'' = Some ''Insufficient balance''"
    by (simp_all add: rejected_row_def)
  show ?thesis
    using place_order_endpoint_rejected [where wait = "\<lambda>k. k" and handle = "\<lambda>e. Inl e"
        and http_str = "\<lambda>status detail. detail" and worlds = "\<lambda>k. demo_world ?result"
        and req = demo_request, OF conn sent row code ne m] by simp
qed

text \<open>
  C2. The claim asks for up to three attempts when the vendor call raises. The body of
  \<open>place_order\<close> catches every exception and returns a failure response, so the retry
  loop around it never sees an exception: when the first vendor call raises \<open>e\<close>, the
  operation returns the failure response with \<open>str(e)\<close> after one attempt and no sleep,
  whatever later attempts would have found.
\<close>

theorem place_order_raises_once:
  assumes "ensure_connected (worlds 1) s a"
      and "call_trade_api s a (set_order (worlds 1)) (order_params req) = Inl e"
    shows "place_order wait handle http_str worlds s a req
             = (Inr (failure_response (exn_str http_str e)), 1, [])"
  using assms by (simp add: place_order_once place_order_body_def place_order_try_def)

theorem place_order_raises_once_witness:
  "place_order (\<lambda>k. k) (\<lambda>e. Inl e) (\<lambda>status detail. detail)
      (\<lambda>k. if k = 1 then raising_world (VendorError ''Connection timed out'')
            else demo_world (Response (Some []) (Some [accepted_row])))
      connected_state 0 demo_request
    = (Inr (failure_response ''Connection timed out''), 1, [])"
proof -
  let ?worlds = "\<lambda>k::nat. if k = 1 then raising_world (VendorError ''Connection timed out'')
            else demo_world (Response (Some []) (Some [accepted_row]))"
  have conn: "ensure_connected (?worlds 1) connected_state 0"
    by (simp add: connected_state_raising)
  have sent: "call_trade_api connected_state 0 (set_order (?worlds 1))
      (order_params demo_request) = Inl (VendorError ''Connection timed out'')"
    by (simp add: connected_state_call raising_world_def)
  show ?thesis
    using place_order_raises_once [where wait = "\<lambda>k. k" and handle = "\<lambda>e. Inl e"
        and http_str = "\<lambda>status detail. detail" and worlds = ?worlds
        and req = demo_request, OF conn sent] by simp
qed

text \<open>
  C5. Without \<open>ord_id\<close> and \<open>cl_ord_id\<close> the endpoint answers 400, as the claim says: that
  check stands before the \<open>try\<close>. With one of them and no order found, the claim asks for
  404 with detail \<open>Order not found\<close>; that \<open>HTTPException(404)\<close> is raised inside the
  \<open>try\<close> and caught by its \<open>except Exception\<close>, and the client receives status 500.
\<close>

theorem get_order_details_endpoint_not_found:
  assumes "truthy q_ord_id \<or> truthy q_cl_ord_id"
      and "fst (call_method wait handle get_order_details_method worlds s a
             \<lparr>gd_inst_id = inst_id, gd_ord_id = q_ord_id, gd_cl_ord_id = q_cl_ord_id\<rparr>) = Inr None"
    shows "get_order_details_endpoint wait handle http_str worlds s a inst_id q_ord_id q_cl_ord_id
             = HttpError 500 (http_str 404 ''Order not found'')"
  using assms by (auto simp: get_order_details_endpoint_def except_exception_500_def)

theorem get_order_details_endpoint_not_found_witness:
  "get_order_details_endpoint (\<lambda>k. k) (\<lambda>e. Inl e) (\<lambda>status detail. detail)
      (\<lambda>k. demo_world (Response (Some []) (Some []))) connected_state 0
      ''BTC-USDT'' (Some ''12345'') None
    = HttpError 500 ''Order not found''"
proof -
  have given: "truthy (Some ''12345'') \<or> truthy None"
    by (simp add: truthy_def)
  have none: "fst (call_method (\<lambda>k. k) (\<lambda>e. Inl e) get_order_details_method
      (\<lambda>k. demo_world (Response (Some []) (Some []))) connected_state 0
      \<lparr>gd_inst_id = ''BTC-USDT'', gd_ord_id = Some ''12345'', gd_cl_ord_id = None\<rparr>) = Inr None"
    by (simp add: call_method_def get_order_details_method_def get_order_details_def
        get_order_details_try_def connected_state_connected connected_state_call truthy_def
        demo_world_def no_data_def)
  show ?thesis
    using get_order_details_endpoint_not_found [where http_str = "\<lambda>status detail. detail",
        OF given none] by simp
qed

section \<open>The retry decorator: which methods carry it\<close>

text \<open>
  The body of \<open>close_position\<close>, like that of \<open>place_order\<close>, returns a response for
  every exception, so its retry loop ends after the first attempt too.
\<close>

lemma close_position_once:
  "close_position wait handle worlds s a req =
     (close_position_body (worlds 1) s a req, 1, [])"
proof -
  obtain r where r: "close_position_body (worlds 1) s a req = Inr r"
    using close_position_body_total by blast
  show ?thesis using r
    by (simp add: close_position_def call_method_def close_position_method_def retry_value)
qed

text \<open>
  What the decorator does for a function that raises: a second attempt after one sleep
  when the first raised, and after three failed attempts the callback's answer.
\<close>

lemma retry_second_attempt:
  "f (Suc 0) = Inl e \<Longrightarrow> f 2 = Inr v \<Longrightarrow> 2 \<le> n \<Longrightarrow>
   retry n wait handle f = (Inr v, 2, [wait 1])"
  by (simp add: retry_def retry_loop.simps [of n wait handle f "Suc 0"]
      retry_loop.simps [of n wait handle f "Suc (Suc 0)"] numeral_2_eq_2)

lemma retry_gives_up:
  "f (Suc 0) = Inl e1 \<Longrightarrow> f 2 = Inl e2 \<Longrightarrow> f 3 = Inl e3 \<Longrightarrow>
   retry 3 wait handle f = (handle e3, 3, [wait 1, wait 2])"
  by (simp add: retry_def retry_loop.simps [of _ wait handle f "Suc 0"]
      retry_loop.simps [of _ wait handle f "Suc (Suc 0)"]
      retry_loop.simps [of _ wait handle f "Suc (Suc (Suc 0))"]
      numeral_2_eq_2 numeral_3_eq_3)



section \<open>The singleton\<close>

lemma okx_init_instance: "cls_instance (okx_init a s) = cls_instance s"
  by (simp add: okx_init_def split: option.splits)

lemma construct_instance:
  "cls_instance (snd (OKXBaseService s)) = Some (fst (OKXBaseService s))"
  by (simp add: OKXBaseService_def okx_new_def okx_init_instance split: option.splits)

lemma construct_existing:
  "cls_instance s = Some a \<Longrightarrow> fst (OKXBaseService s) = a"
  by (simp add: OKXBaseService_def okx_new_def)

lemma connect_instance: "cls_instance (snd (connect w k sec p sb a s)) = cls_instance s"
  by (simp add: connect_def Let_def split: option.splits sum.splits)

lemma shutdown_instance: "cls_instance (shutdown a s) = cls_instance s"
  by (simp add: shutdown_def split: option.splits)

lemma base_step_instance:
  "cls_instance s = Some a \<Longrightarrow> cls_instance (base_step s op) = Some a"
  by (cases op)
     (simp_all add: base_step_def construct_instance construct_existing connect_instance
        shutdown_instance)

lemma base_run_instance:
  "cls_instance s = Some a \<Longrightarrow> cls_instance (base_run s ops) = Some a"
  unfolding base_run_def
  by (induction ops arbitrary: s) (simp_all add: base_step_instance)

lemma okx_init_idem: "okx_init a (okx_init a s) = okx_init a s"
  by (auto simp: okx_init_def initialized_def split: option.splits)

lemma construct_twice:
  "OKXBaseService (snd (OKXBaseService s)) = OKXBaseService s"
  by (auto simp: OKXBaseService_def okx_new_def okx_init_idem okx_init_instance
      split: option.splits prod.splits)

lemma construct_initialized:
  "cls_instance s = Some a \<Longrightarrow> heap s a = Some obj \<Longrightarrow> initialized s obj \<Longrightarrow>
   OKXBaseService s = (a, s)"
  by (simp add: OKXBaseService_def okx_new_def okx_init_def)

text \<open>
  C6. Whatever the program does between two constructions (construct, connect, shut
  down), \<open>OKXBaseService()\<close> returns the instance the first construction returned;
  constructing again right away changes nothing; once the instance is initialized a
  construction leaves the whole state as it is; and the three wrappers wired in
  \<open>main.py\<close> hold that one instance, which every later construction returns too.
\<close>

theorem one_shared_instance:
  "fst (OKXBaseService (base_run (snd (OKXBaseService s)) ops)) = fst (OKXBaseService s) \<and>
   OKXBaseService (snd (OKXBaseService s)) = OKXBaseService s \<and>
   (\<forall>a obj. cls_instance s = Some a \<and> heap s a = Some obj \<and> initialized s obj
      \<longrightarrow> OKXBaseService s = (a, s)) \<and>
   trading_base_service (fst (wire_okx_services s)) = fst (OKXBaseService s) \<and>
   market_base_service (fst (wire_okx_services s)) = fst (OKXBaseService s) \<and>
   account_base_service (fst (wire_okx_services s)) = fst (OKXBaseService s) \<and>
   fst (OKXBaseService (base_run (snd (wire_okx_services s)) ops))
     = trading_base_service (fst (wire_okx_services s))"
proof -
  have later: "fst (OKXBaseService (base_run (snd (OKXBaseService s)) ops))
      = fst (OKXBaseService s)"
    by (simp add: construct_existing base_run_instance construct_instance)
  have wire: "wire_okx_services s =
      (\<lparr>trading_base_service = fst (OKXBaseService s),
        market_base_service = fst (OKXBaseService s),
        account_base_service = fst (OKXBaseService s)\<rparr>, snd (OKXBaseService s))"
    by (simp add: wire_okx_services_def split: prod.splits)
  show ?thesis
    using later by (simp add: construct_twice construct_initialized wire)
qed

lemma connected_state_eq:
  "connected_state =
     \<lparr>cls_instance = Some 0, cls_initialized = False,
      heap = [0 \<mapsto> \<lparr>inst_initialized = Some True, api_key = Some ''key'',
         secret_key = Some ''secret'', passphrase = Some ''pass'', is_sandbox = False,
         account_api = Some \<lparr>client_key = ''key'', client_secret = ''secret'',
            client_passphrase = ''pass'', client_flag = ''0''\<rparr>,
         trade_api = Some \<lparr>client_key = ''key'', client_secret = ''secret'',
            client_passphrase = ''pass'', client_flag = ''0''\<rparr>,
         algo_api = Some \<lparr>client_key = ''key'', client_secret = ''secret'',
            client_passphrase = ''pass'', client_flag = ''0''\<rparr>,
         public_api = Some \<lparr>client_key = ''key'', client_secret = ''secret'',
            client_passphrase = ''pass'', client_flag = ''0''\<rparr>,
         market_api = Some \<lparr>client_key = ''key'', client_secret = ''secret'',
            client_passphrase = ''pass'', client_flag = ''0''\<rparr>\<rparr>],
      next_addr = 1\<rparr>"
  by (simp add: connected_state_def connect_def OKXBaseService_def okx_new_def okx_init_def
      initial_state_def blank_object_def initialized_def demo_world_def Let_def)

text \<open>
  From the first construction on the instance is at address 0, also after a connect, a
  shutdown and two more constructions; and constructing on the connected state returns
  address 0 and the state unchanged.
\<close>

theorem one_shared_instance_witness:
  "fst (OKXBaseService (base_run (snd (OKXBaseService initial_state))
          [Connect (demo_world NoResponse) ''key'' ''secret'' ''pass'' False, Construct,
           Shutdown, Construct])) = 0
   \<and> OKXBaseService connected_state = (0, connected_state)"
proof -
  have first: "fst (OKXBaseService initial_state) = 0"
    by (simp add: OKXBaseService_def okx_new_def initial_state_def)
  have inst: "cls_instance connected_state = Some 0"
    by (simp add: connected_state_eq)
  obtain obj where obj: "heap connected_state 0 = Some obj" and init: "initialized connected_state obj"
    by (simp add: connected_state_eq initialized_def)
  have skip: "OKXBaseService connected_state = (0, connected_state)"
    using one_shared_instance [of connected_state "[]"] inst obj init by blast
  show ?thesis
    using one_shared_instance [of initial_state
        "[Connect (demo_world NoResponse) ''key'' ''secret'' ''pass'' False, Construct,
          Shutdown, Construct]"] first skip
    by simp
qed

section \<open>The scheduler\<close>





section \<open>Grouping the messages by time\<close>

lemma parse_ok:
  "parses fromiso m \<Longrightarrow>
   parse_timestamp fromiso (msg_timestamp m) = Inr (the (fromiso (replace_Z (msg_timestamp m))))"
  by (auto simp: parses_def parse_timestamp_def)

lemma close_in_time_within:
  "parses fromiso a \<Longrightarrow> parses fromiso b \<Longrightarrow>
   close_in_time fromiso a b =
     within_5_minutes (the (fromiso (replace_Z (msg_timestamp a))))
       (the (fromiso (replace_Z (msg_timestamp b))))"
  by (auto simp: parses_def close_in_time_def within_5_minutes_def)

lemma create_ok:
  "p \<noteq> [] \<Longrightarrow> parses fromiso (hd p) \<Longrightarrow>
   create_message_group fromiso gid p = Inr (group_of fromiso gid p)"
  by (cases p) (auto simp: create_message_group_def group_of_def parse_ok)

lemma group_loop_groups_from:
  assumes "\<forall>m\<in>set cur. parses fromiso m" and "\<forall>m\<in>set ms. parses fromiso m" and "cur \<noteq> []"
  shows "\<exists>G C. group_loop fromiso ms groups cur = Inr (G, C) \<and> C \<noteq> [] \<and>
           parses fromiso (hd C) \<and>
           G @ [group_of fromiso (int (length G) + 1) C]
             = groups @ groups_from fromiso (int (length groups) + 1) cur ms"
  using assms
proof (induction ms arbitrary: groups cur)
  case Nil
  then show ?case by (cases cur) auto
next
  case (Cons m ms)
  from Cons.prems obtain c cs where cur: "cur = c # cs" by (cases cur) auto
  have pm: "parses fromiso m" using Cons.prems by simp
  have pl: "parses fromiso (last cur)" using Cons.prems by simp
  have ph: "parses fromiso (hd cur)" using Cons.prems cur by simp
  show ?case
  proof (cases "close_in_time fromiso (last cur) m")
    case True
    have prem1: "\<forall>x\<in>set (cur @ [m]). parses fromiso x" using Cons.prems by auto
    have prem2: "\<forall>x\<in>set ms. parses fromiso x" using Cons.prems by auto
    from Cons.IH [OF prem1 prem2, of groups]
    obtain G C where
      "group_loop fromiso ms groups (cur @ [m]) = Inr (G, C)" "C \<noteq> []"
      "parses fromiso (hd C)"
      "G @ [group_of fromiso (int (length G) + 1) C]
         = groups @ groups_from fromiso (int (length groups) + 1) (cur @ [m]) ms"
      by auto
    moreover have "group_loop fromiso (m # ms) groups cur
        = group_loop fromiso ms groups (cur @ [m])"
      using True pm pl cur
      by (simp add: parse_ok close_in_time_within [symmetric] del: last.simps)
    ultimately show ?thesis using True by auto
  next
    case False
    have prem1: "\<forall>x\<in>set [m]. parses fromiso x" using pm by simp
    have prem2: "\<forall>x\<in>set ms. parses fromiso x" using Cons.prems by auto
    from Cons.IH [OF prem1 prem2, of "groups @ [group_of fromiso (int (length groups) + 1) cur]"]
    obtain G C where
      "group_loop fromiso ms (groups @ [group_of fromiso (int (length groups) + 1) cur]) [m]
         = Inr (G, C)" "C \<noteq> []" "parses fromiso (hd C)"
      "G @ [group_of fromiso (int (length G) + 1) C]
         = (groups @ [group_of fromiso (int (length groups) + 1) cur])
           @ groups_from fromiso
               (int (length (groups @ [group_of fromiso (int (length groups) + 1) cur])) + 1)
               [m] ms"
      by auto
    moreover have "group_loop fromiso (m # ms) groups cur
        = group_loop fromiso ms (groups @ [group_of fromiso (int (length groups) + 1) cur]) [m]"
      using False pm pl ph cur Cons.prems(3)
      by (simp add: parse_ok close_in_time_within [symmetric] create_ok del: last.simps)
    ultimately show ?thesis using False by (auto simp: add.commute)
  qed
qed

lemma group_messages_by_time_eq:
  assumes "\<forall>x\<in>set (m # ms). parses fromiso x"
  shows "group_messages_by_time fromiso (m # ms) = Inr (groups_from fromiso 1 [m] ms)"
proof -
  have p1: "\<forall>x\<in>set [m]. parses fromiso x" and p2: "\<forall>x\<in>set ms. parses fromiso x"
    using assms by auto
  from group_loop_groups_from [OF p1 p2, of "[]"]
  obtain G C where gl: "group_loop fromiso ms [] [m] = Inr (G, C)" and "C \<noteq> []"
    and "parses fromiso (hd C)"
    and "G @ [group_of fromiso (int (length G) + 1) C] = groups_from fromiso 1 [m] ms"
    by auto
  then show ?thesis
    by (simp add: group_messages_by_time_def create_ok)
qed

lemma concat_split: "concat (split_by_gap fromiso cur ms) = cur @ ms"
  by (induction ms arbitrary: cur) auto









lemma groups_from_messages:
  "map messages (groups_from fromiso gid cur ms)
     = map (map to_discord_message) (split_by_gap fromiso cur ms)"
  by (induction ms arbitrary: cur gid) (auto simp: group_of_def)



lemma demo_parse:
  "demo_fromiso (replace_Z (msg_timestamp demo_m0))
     = Some \<lparr>instant_us = 1714557660000000, dmy_hm = ''01/05/2024 10:01''\<rparr>"
  "demo_fromiso (replace_Z (msg_timestamp demo_m1))
     = Some \<lparr>instant_us = 1714557600000000, dmy_hm = ''01/05/2024 10:00''\<rparr>"
  "demo_fromiso (replace_Z (msg_timestamp demo_m2))
     = Some \<lparr>instant_us = 1714557420000000, dmy_hm = ''01/05/2024 09:57''\<rparr>"
  "demo_fromiso (replace_Z (msg_timestamp demo_m3))
     = Some \<lparr>instant_us = 1714554000000000, dmy_hm = ''01/05/2024 09:00''\<rparr>"
  by (simp_all add: demo_fromiso_def replace_Z_def demo_m0_def demo_m1_def demo_m2_def
      demo_m3_def demo_message_def)

lemma demo_convert:
  "to_discord_message demo_m1 = demo_d1" "to_discord_message demo_m2 = demo_d2"
  "to_discord_message demo_m3 = demo_d3"
  by (simp_all add: to_discord_message_def demo_m1_def demo_m2_def demo_m3_def
      demo_message_def demo_d1_def demo_d2_def demo_d3_def strip_def is_space_def
      str_or_empty_def attachment_urls_def to_reply_def)

lemma demo_authors:
  "msg_author demo_m1 = \<lparr>author_id = ''42'', author_username = ''user42''\<rparr>"
  "msg_author demo_m2 = \<lparr>author_id = ''42'', author_username = ''user42''\<rparr>"
  "msg_author demo_m3 = \<lparr>author_id = ''42'', author_username = ''user42''\<rparr>"
  "msg_author demo_m0 = \<lparr>author_id = ''7'', author_username = ''user7''\<rparr>"
  by (simp_all add: demo_m0_def demo_m1_def demo_m2_def demo_m3_def demo_message_def)

lemma demo_groups:
  "group_messages_by_time demo_fromiso [demo_m1, demo_m2, demo_m3]
     = Inr [\<lparr>group_id = 1, group_timestamp = ''01/05/2024 10:00'', group_username = ''user42'',
              messages = [demo_d1, demo_d2]\<rparr>,
            \<lparr>group_id = 2, group_timestamp = ''01/05/2024 09:00'', group_username = ''user42'',
              messages = [demo_d3]\<rparr>]"
  by (simp add: group_messages_by_time_def create_message_group_def parse_timestamp_def
      demo_parse demo_convert demo_authors within_5_minutes_def)


section \<open>Fetching the messages\<close>

lemma group_loop_parses:
  "group_loop fromiso ms groups cur = Inr (G, C) \<Longrightarrow> cur \<noteq> [] \<Longrightarrow>
   (\<forall>x\<in>set ms. parses fromiso x) \<and> C \<noteq> [] \<and> (parses fromiso (hd C) \<longrightarrow> parses fromiso (hd cur))"
proof (induction ms arbitrary: groups cur)
  case Nil
  then show ?case by simp
next
  case (Cons m ms)
  from Cons.prems obtain c cs where cur: "cur = c # cs" by (cases cur) auto
  from Cons.prems(1) obtain t where t: "parse_timestamp fromiso (msg_timestamp m) = Inr t"
    by (auto split: sum.splits)
  then have pm: "parses fromiso m"
    by (auto simp: parse_timestamp_def parses_def split: option.splits)
  from Cons.prems(1) t cur obtain l where
    l: "parse_timestamp fromiso (msg_timestamp (last cur)) = Inr l"
    by (auto split: sum.splits simp del: last.simps)
  show ?case
  proof (cases "within_5_minutes l t")
    case True
    then have "group_loop fromiso ms groups (cur @ [m]) = Inr (G, C)"
      using Cons.prems(1) t l cur by (simp del: last.simps)
    from Cons.IH [OF this] show ?thesis using pm cur by simp
  next
    case False
    then obtain g where g: "create_message_group fromiso (int (length groups) + 1) cur = Inr g"
      and loop: "group_loop fromiso ms (groups @ [g]) [m] = Inr (G, C)"
      using Cons.prems(1) t l cur by (auto split: sum.splits simp del: last.simps)
    from g cur have "parses fromiso (hd cur)"
      by (auto simp: create_message_group_def parse_timestamp_def parses_def
          split: sum.splits option.splits)
    with Cons.IH [OF loop] show ?thesis using pm by simp
  qed
qed

lemma group_success_parses:
  assumes "group_messages_by_time fromiso msgs = Inr groups"
  shows "\<forall>m\<in>set msgs. parses fromiso m"
proof (cases msgs)
  case Nil
  then show ?thesis by simp
next
  case (Cons m ms)
  from assms Cons obtain G C where loop: "group_loop fromiso ms [] [m] = Inr (G, C)"
    by (auto simp: group_messages_by_time_def split: sum.splits)
  from group_loop_parses [OF loop] have rest: "\<forall>x\<in>set ms. parses fromiso x"
    and C: "C \<noteq> []" and imp: "parses fromiso (hd C) \<longrightarrow> parses fromiso m"
    by simp_all
  from assms Cons loop C obtain g where
    "create_message_group fromiso (int (length G) + 1) C = Inr g"
    by (auto simp: group_messages_by_time_def split: sum.splits)
  with C have "parses fromiso (hd C)"
    by (cases C)
       (auto simp: create_message_group_def parse_timestamp_def parses_def
          split: sum.splits option.splits)
  with imp rest Cons show ?thesis by simp
qed

lemma group_success_concat:
  assumes "group_messages_by_time fromiso msgs = Inr groups"
  shows "concat (map messages groups) = map to_discord_message msgs"
proof (cases msgs)
  case Nil
  then show ?thesis using assms by (simp add: group_messages_by_time_def)
next
  case (Cons m ms)
  have "\<forall>x\<in>set (m # ms). parses fromiso x"
    using group_success_parses [OF assms] Cons by simp
  from group_messages_by_time_eq [OF this] assms Cons
  have "groups = groups_from fromiso 1 [m] ms" by simp
  then show ?thesis
    using Cons by (simp add: groups_from_messages map_concat [symmetric] concat_split)
qed

lemma sort_reverse_sorted:
  "sorted_wrt (\<lambda>a b. key b \<le> key a) (sort_reverse key xs)"
proof -
  have "sorted (map key (sort_key key (rev xs)))" by simp
  then have "sorted_wrt (\<lambda>a b. key a \<le> key b) (sort_key key (rev xs))"
    by (simp add: sorted_map)
  then show ?thesis
    by (simp add: sort_reverse_def sorted_wrt_rev)
qed

lemma sort_reverse_set: "set (sort_reverse key xs) = set xs"
  by (simp add: sort_reverse_def)

lemma sort_reverse_length: "length (sort_reverse key xs) = length xs"
  by (simp add: sort_reverse_def)

lemma take_drop_sorted_wrt:
  assumes "sorted_wrt P zs"
  shows "sorted_wrt P (take n zs) \<and> (\<forall>x\<in>set (take n zs). \<forall>y\<in>set (drop n zs). P x y)"
proof -
  have "sorted_wrt P (take n zs @ drop n zs)" using assms by simp
  then show ?thesis unfolding sorted_wrt_append by blast
qed

lemma build_discord_data_props:
  assumes "build_discord_data fromiso channel target user = Inr d"
  shows "total_messages d = length user \<and>
         exported_count d = min 10 (length user) \<and>
         concat (map messages (message_groups d))
           = map to_discord_message (take 10 (sort_reverse msg_timestamp user)) \<and>
         discord_channel_id d = channel \<and> target_user_id d = target"
proof -
  from assms obtain groups where
    g: "group_messages_by_time fromiso (take 10 (sort_reverse msg_timestamp user)) = Inr groups"
    by (auto simp: build_discord_data_def Let_def split: sum.splits)
  from assms g have d: "message_groups d = groups" "total_messages d = length user"
    "exported_count d = length (take 10 (sort_reverse msg_timestamp user))"
    "discord_channel_id d = channel" "target_user_id d = target"
    by (auto simp: build_discord_data_def Let_def split: sum.splits list.splits)
  show ?thesis
    using d group_success_concat [OF g]
    by (simp add: sort_reverse_length min.commute)
qed



lemma fetch_some:
  assumes "fetch_discord_messages fromiso settings get request = Some d"
  shows "\<exists>response fetched.
     discord_reply settings get request = Inr response \<and> status_code response = 200 \<and>
     reply_json response = Inr fetched \<and>
     user_messages_of (target_of settings request) fetched \<noteq> [] \<and>
     build_discord_data fromiso (str_or_empty (request_channel settings request))
       (target_of settings request) (user_messages_of (target_of settings request) fetched) = Inr d"
proof -
  from assms have tried: "fetch_try fromiso settings get request = Inr (Some d)"
    by (simp add: fetch_discord_messages_def split: sum.splits)
  then obtain response where reply: "discord_reply settings get request = Inr response"
    by (auto simp: fetch_try_def discord_reply_def split: if_splits sum.splits)
  from tried reply have status: "status_code response = 200"
    by (auto simp: fetch_try_def discord_reply_def split: if_splits sum.splits)
  from tried reply status obtain fetched where json: "reply_json response = Inr fetched"
    by (auto simp: fetch_try_def discord_reply_def split: if_splits sum.splits)
  from tried reply status json
  have ne: "user_messages_of (target_of settings request) fetched \<noteq> []"
    by (auto simp: fetch_try_def discord_reply_def target_of_def split: if_splits sum.splits)
  from tried reply status json ne
  have "build_discord_data fromiso (str_or_empty (request_channel settings request))
       (target_of settings request) (user_messages_of (target_of settings request) fetched) = Inr d"
    by (auto simp: fetch_try_def discord_reply_def target_of_def split: if_splits sum.splits)
  with reply status json ne show ?thesis by blast
qed

lemma top_10_props:
  "(\<forall>m\<in>set (top_10_of target fetched). m \<in> set fetched \<and> author_id (msg_author m) = target) \<and>
   sorted_wrt (\<lambda>a b. msg_timestamp b \<le> msg_timestamp a) (top_10_of target fetched) \<and>
   (\<forall>x\<in>set (top_10_of target fetched). \<forall>y\<in>set (user_messages_of target fetched).
      y \<in> set (top_10_of target fetched) \<or> msg_timestamp y \<le> msg_timestamp x)"
proof -
  let ?user = "user_messages_of target fetched"
  let ?sorted = "sort_reverse msg_timestamp ?user"
  note td = take_drop_sorted_wrt [OF sort_reverse_sorted, of msg_timestamp 10 ?user]
  have within: "\<forall>m\<in>set (take 10 ?sorted). m \<in> set fetched \<and> author_id (msg_author m) = target"
  proof
    fix m assume "m \<in> set (take 10 ?sorted)"
    then have "m \<in> set ?sorted" by (rule in_set_takeD)
    then have "m \<in> set ?user" by (simp add: sort_reverse_set)
    then show "m \<in> set fetched \<and> author_id (msg_author m) = target"
      by (simp add: user_messages_of_def)
  qed
  have newest: "\<forall>x\<in>set (take 10 ?sorted). \<forall>y\<in>set ?user.
      y \<in> set (take 10 ?sorted) \<or> msg_timestamp y \<le> msg_timestamp x"
  proof (intro ballI)
    fix x y assume x: "x \<in> set (take 10 ?sorted)" and y: "y \<in> set ?user"
    from y have "y \<in> set ?sorted"
      by (simp add: sort_reverse_set)
    then have "y \<in> set (take 10 ?sorted) \<union> set (drop 10 ?sorted)"
      by (metis append_take_drop_id set_append)
    then have "y \<in> set (take 10 ?sorted) \<or> y \<in> set (drop 10 ?sorted)"
      by blast
    then show "y \<in> set (take 10 ?sorted) \<or> msg_timestamp y \<le> msg_timestamp x"
      using td x by blast
  qed
  show ?thesis
    unfolding top_10_of_def using within td newest by blast
qed

text \<open>
  C9. Whenever \<open>fetch_discord_messages\<close> returns data, the request was answered with
  status 200 and a list of messages of which some are the target user's; \<open>total_messages\<close>
  counts the target user's messages and \<open>exported_count\<close> is the minimum of 10 and
  \<open>total_messages\<close>; the messages of the groups, in order, are the conversions of the
  exported ones, which are all the target user's, stand newest first, and are the newest:
  every message of the user that is not exported is no newer than any exported one.
  Newer means a greater \<open>timestamp\<close>, compared as the code compares it, as a string (for
  Discord's ISO-8601 timestamps that is the order in time). And \<open>None\<close> is returned when
  the request raises, when the status is not 200, and when no fetched message is the
  target user's.
\<close>

theorem fetch_discord_messages_exports_newest:
  "(\<forall>d. fetch_discord_messages fromiso settings get request = Some d \<longrightarrow>
      (\<exists>response fetched.
         discord_reply settings get request = Inr response \<and>
         status_code response = 200 \<and> reply_json response = Inr fetched \<and>
         user_messages_of (target_of settings request) fetched \<noteq> [] \<and>
         total_messages d = length (user_messages_of (target_of settings request) fetched) \<and>
         exported_count d = min 10 (total_messages d) \<and>
         concat (map messages (message_groups d))
           = map to_discord_message (top_10_of (target_of settings request) fetched) \<and>
         (\<forall>m\<in>set (top_10_of (target_of settings request) fetched).
            m \<in> set fetched \<and> author_id (msg_author m) = target_of settings request) \<and>
         sorted_wrt (\<lambda>a b. msg_timestamp b \<le> msg_timestamp a)
           (top_10_of (target_of settings request) fetched) \<and>
         (\<forall>x\<in>set (top_10_of (target_of settings request) fetched).
          \<forall>y\<in>set (user_messages_of (target_of settings request) fetched).
            y \<in> set (top_10_of (target_of settings request) fetched)
            \<or> msg_timestamp y \<le> msg_timestamp x))) \<and>
   (\<forall>e. discord_reply settings get request = Inl e
      \<longrightarrow> fetch_discord_messages fromiso settings get request = None) \<and>
   (\<forall>response. discord_reply settings get request = Inr response \<and> status_code response \<noteq> 200
      \<longrightarrow> fetch_discord_messages fromiso settings get request = None) \<and>
   (\<forall>response fetched.
      discord_reply settings get request = Inr response \<and> reply_json response = Inr fetched \<and>
      user_messages_of (target_of settings request) fetched = []
      \<longrightarrow> fetch_discord_messages fromiso settings get request = None)"
proof (intro conjI allI impI)
  fix d
  assume some: "fetch_discord_messages fromiso settings get request = Some d"
  from fetch_some [OF some] obtain response fetched where
    reply: "discord_reply settings get request = Inr response"
    and status: "status_code response = 200" and json: "reply_json response = Inr fetched"
    and ne: "user_messages_of (target_of settings request) fetched \<noteq> []"
    and build: "build_discord_data fromiso (str_or_empty (request_channel settings request))
       (target_of settings request) (user_messages_of (target_of settings request) fetched) = Inr d"
    by blast
  note props = build_discord_data_props [OF build]
  note top = top_10_props [of "target_of settings request" fetched]
  have "discord_reply settings get request = Inr response \<and>
         status_code response = 200 \<and> reply_json response = Inr fetched \<and>
         user_messages_of (target_of settings request) fetched \<noteq> [] \<and>
         total_messages d = length (user_messages_of (target_of settings request) fetched) \<and>
         exported_count d = min 10 (total_messages d) \<and>
         concat (map messages (message_groups d))
           = map to_discord_message (top_10_of (target_of settings request) fetched) \<and>
         (\<forall>m\<in>set (top_10_of (target_of settings request) fetched).
            m \<in> set fetched \<and> author_id (msg_author m) = target_of settings request) \<and>
         sorted_wrt (\<lambda>a b. msg_timestamp b \<le> msg_timestamp a)
           (top_10_of (target_of settings request) fetched) \<and>
         (\<forall>x\<in>set (top_10_of (target_of settings request) fetched).
          \<forall>y\<in>set (user_messages_of (target_of settings request) fetched).
            y \<in> set (top_10_of (target_of settings request) fetched)
            \<or> msg_timestamp y \<le> msg_timestamp x)"
    using reply status json ne props top by (simp add: top_10_of_def)
  then show "\<exists>response fetched.
         discord_reply settings get request = Inr response \<and>
         status_code response = 200 \<and> reply_json response = Inr fetched \<and>
         user_messages_of (target_of settings request) fetched \<noteq> [] \<and>
         total_messages d = length (user_messages_of (target_of settings request) fetched) \<and>
         exported_count d = min 10 (total_messages d) \<and>
         concat (map messages (message_groups d))
           = map to_discord_message (top_10_of (target_of settings request) fetched) \<and>
         (\<forall>m\<in>set (top_10_of (target_of settings request) fetched).
            m \<in> set fetched \<and> author_id (msg_author m) = target_of settings request) \<and>
         sorted_wrt (\<lambda>a b. msg_timestamp b \<le> msg_timestamp a)
           (top_10_of (target_of settings request) fetched) \<and>
         (\<forall>x\<in>set (top_10_of (target_of settings request) fetched).
          \<forall>y\<in>set (user_messages_of (target_of settings request) fetched).
            y \<in> set (top_10_of (target_of settings request) fetched)
            \<or> msg_timestamp y \<le> msg_timestamp x)"
    by blast
next
  fix e
  assume "discord_reply settings get request = Inl e"
  then show "fetch_discord_messages fromiso settings get request = None"
    by (simp add: fetch_discord_messages_def fetch_try_def discord_reply_def)
next
  fix response
  assume "discord_reply settings get request = Inr response \<and> status_code response \<noteq> 200"
  then show "fetch_discord_messages fromiso settings get request = None"
    by (simp add: fetch_discord_messages_def fetch_try_def discord_reply_def)
next
  fix response fetched
  assume "discord_reply settings get request = Inr response \<and> reply_json response = Inr fetched \<and>
      user_messages_of (target_of settings request) fetched = []"
  then show "fetch_discord_messages fromiso settings get request = None"
    by (simp add: fetch_discord_messages_def fetch_try_def discord_reply_def target_of_def)
qed

lemma demo_stamps:
  "msg_timestamp demo_m0 = ''2024-05-01T10:01:00Z''"
  "msg_timestamp demo_m1 = ''2024-05-01T10:00:00Z''"
  "msg_timestamp demo_m2 = ''2024-05-01T09:57:00Z''"
  "msg_timestamp demo_m3 = ''2024-05-01T09:00:00Z''"
  by (simp_all add: demo_m0_def demo_m1_def demo_m2_def demo_m3_def demo_message_def)

lemma demo_order:
  "msg_timestamp demo_m3 \<le> msg_timestamp demo_m2"
  "msg_timestamp demo_m2 \<le> msg_timestamp demo_m1"
  "\<not> msg_timestamp demo_m1 \<le> msg_timestamp demo_m2"
  "\<not> msg_timestamp demo_m2 \<le> msg_timestamp demo_m3"
  "\<not> msg_timestamp demo_m1 \<le> msg_timestamp demo_m3"
  "msg_timestamp demo_m3 \<le> msg_timestamp demo_m1"
  by (simp_all add: demo_stamps less_eq_char_def less_char_def)

lemma demo_sorted:
  "sort_reverse msg_timestamp [demo_m2, demo_m1, demo_m3] = [demo_m1, demo_m2, demo_m3]"
  by (simp add: sort_reverse_def demo_order)

lemma demo_user:
  "user_messages_of ''42'' [demo_m0, demo_m2, demo_m1, demo_m3] = [demo_m2, demo_m1, demo_m3]"
  by (simp add: user_messages_of_def demo_authors)

lemma demo_fetch:
  "fetch_discord_messages demo_fromiso demo_settings demo_get default_request = Some demo_data"
  by (simp add: fetch_discord_messages_def fetch_try_def request_token_def request_channel_def
      request_target_def py_or_def truthy_def demo_settings_def default_request_def
      str_or_empty_def demo_get_def demo_user build_discord_data_def demo_sorted demo_groups
      parse_timestamp_def demo_parse demo_authors demo_data_def)

text \<open>
  A run that returns data: four messages fetched, three of them the target user's, all
  three exported newest first in two groups.
\<close>

theorem fetch_discord_messages_exports_newest_witness:
  "fetch_discord_messages demo_fromiso demo_settings demo_get default_request = Some demo_data \<and>
   total_messages demo_data = 3 \<and>
   exported_count demo_data = min 10 (total_messages demo_data)"
proof -
  from fetch_discord_messages_exports_newest [of demo_fromiso demo_settings demo_get
      default_request] demo_fetch
  have "exported_count demo_data = min 10 (total_messages demo_data)"
    by blast
  then show ?thesis
    using demo_fetch by (simp add: demo_data_def)
qed

section \<open>Saving the messages\<close>








lemma stored_ids_collection: "collection db1 = collection db \<Longrightarrow> stored_ids db1 = stored_ids db"
  by (simp add: stored_ids_def)






end
